theory Spec2Isabelle
  imports Main
begin

section \<open>Strings and paths\<close>

text \<open>
  The program handles paths and the image format as Python strings. They are modelled as
  \<^typ>\<open>string\<close>; the format string is taken to be ASCII, so that \<open>str.lower\<close> and
  \<open>str.upper\<close> act on the letters A to Z and a to z and leave every other character alone.
  Paths are compared as the strings the program builds and passes on.
\<close>

type_synonym path = string

definition quote :: "string \<Rightarrow> string" where
  "quote s = CHR 0x27 # s @ [CHR 0x27]"

definition lower_char :: "char \<Rightarrow> char" where
  "lower_char c =
     (let n = (of_char c :: nat) in if 65 \<le> n \<and> n \<le> 90 then char_of (n + 32) else c)"

definition upper_char :: "char \<Rightarrow> char" where
  "upper_char c =
     (let n = (of_char c :: nat) in if 97 \<le> n \<and> n \<le> 122 then char_of (n - 32) else c)"

text \<open>\<open>fmt.lower()\<close> and \<open>fmt.upper()\<close>.\<close>

definition lower :: "string \<Rightarrow> string" where
  "lower s = map lower_char s"

definition upper :: "string \<Rightarrow> string" where
  "upper s = map upper_char s"

text \<open>The decimal text of an index, as the f-string \<open>{idx}\<close> prints it.\<close>

definition digit_char :: "nat \<Rightarrow> char" where
  "digit_char d = char_of (48 + d)"

fun str_nat :: "nat \<Rightarrow> string" where
  "str_nat n = (if n < 10 then [digit_char n] else str_nat (n div 10) @ [digit_char (n mod 10)])"

declare str_nat.simps [simp del]

definition str_int :: "int \<Rightarrow> string" where
  "str_int i = (if i < 0 then CHR ''-'' # str_nat (nat (- i)) else str_nat (nat i))"

text \<open>\<open>os.path.join(a, b)\<close> for two arguments, as \<open>posixpath.join\<close> computes it.\<close>

definition os_path_join :: "path \<Rightarrow> string \<Rightarrow> path" where
  "os_path_join a b =
     (if b \<noteq> [] \<and> hd b = CHR ''/'' then b
      else if a = [] \<or> last a = CHR ''/'' then a @ b
      else a @ ''/'' @ b)"

section \<open>The world the program runs in\<close>

datatype level = INFO | ERROR

text \<open>
  Exceptions. An \<open>OSError\<close> carries the text that \<open>str(e)\<close> gives; what the rasterization
  or the encoding call raises is \<open>LibraryError\<close> with its text.
\<close>

datatype exn = ImportError | OSError string | LibraryError string

text \<open>
  How a function stops other than by returning: \<open>sys.exit(n)\<close>, or an exception that
  nothing catches.
\<close>

datatype stop = SystemExit int | Raise exn

text \<open>
  The file system is a map from paths to nodes; a file holds its bytes. \<open>os.makedirs\<close>
  records the directory it was asked for (ancestors it makes on the way are not tracked).
\<close>

datatype 'c node = File 'c | Dir

type_synonym 'c disk = "path \<Rightarrow> 'c node option"

definition isfile :: "'c disk \<Rightarrow> path \<Rightarrow> bool" where
  "isfile d p = (case d p of Some (File c) \<Rightarrow> True | _ \<Rightarrow> False)"

definition isdir :: "'c disk \<Rightarrow> path \<Rightarrow> bool" where
  "isdir d p = (case d p of Some Dir \<Rightarrow> True | _ \<Rightarrow> False)"

definition read_file :: "'c disk \<Rightarrow> path \<Rightarrow> 'c option" where
  "read_file d p = (case d p of Some (File c) \<Rightarrow> Some c | _ \<Rightarrow> None)"

text \<open>
  The calls the program makes to its collaborators (the import system, the operating
  system, the rasterization library, the image encoder), in the order it makes them.
  This trace is a record of the run, not something the program reads.
\<close>

datatype 'p call =
    Import_pdf2image
  | Isfile path
  | Which string
  | Access_R path
  | Isdir path
  | Makedirs path
  | Access_W path
  | Import_convert_from_path
  | Convert_from_path path int string "path option"
  | Save 'p path string

record ('p, 'c) world =
  disk :: "'c disk"
  logged :: "(level \<times> string) list"
  printed :: "string list"
  calls :: "'p call list"

text \<open>
  What the collaborators answer. \<open>'p\<close> is a decoded page image, \<open>'c\<close> the bytes of a file.
  \<^item> \<open>pdf2image_installed\<close>: whether \<open>import pdf2image\<close> succeeds;
  \<^item> \<open>which\<close>: \<open>shutil.which\<close>;
  \<^item> \<open>access_R\<close>, \<open>access_W\<close>: \<open>os.access(p, os.R_OK)\<close> and \<open>os.access(p, os.W_OK)\<close>;
  \<^item> \<open>mkdir_error\<close>: the text of the \<open>OSError\<close> with which the operating system refuses
    to create a directory at a path where nothing exists, \<open>None\<close> when it creates it;
  \<^item> \<open>convert_from_path\<close>: the rasterization call, a function of the source path, the
    bytes of the file found there (\<open>None\<close> when there is no such file) and the other
    arguments of the call: the pages, or the exception raised;
  \<^item> \<open>save\<close>: \<open>page.save(out_file, format)\<close>: the bytes it leaves in the file at
    \<open>out_file\<close>, or the exception raised.
\<close>

record ('p, 'c) env =
  pdf2image_installed :: bool
  which :: "string \<Rightarrow> path option"
  access_R :: "path \<Rightarrow> bool"
  access_W :: "path \<Rightarrow> bool"
  mkdir_error :: "path \<Rightarrow> string option"
  convert_from_path :: "path \<Rightarrow> 'c option \<Rightarrow> int \<Rightarrow> string \<Rightarrow> path option \<Rightarrow> exn + 'p list"
  save :: "'p \<Rightarrow> path \<Rightarrow> string \<Rightarrow> exn + 'c"

text \<open>The namespace that \<open>parse_arguments\<close> returns.\<close>

record args =
  args_pdf_file :: path
  args_output_dir :: path
  args_dpi :: int
  args_fmt :: string
  args_poppler_path :: "path option"

type_synonym ('p, 'c) result = "(stop + unit) \<times> ('p, 'c) world"

definition logging_error :: "string \<Rightarrow> ('p, 'c) world \<Rightarrow> ('p, 'c) world" where
  "logging_error msg w = w\<lparr>logged := logged w @ [(ERROR, msg)]\<rparr>"

definition logging_info :: "string \<Rightarrow> ('p, 'c) world \<Rightarrow> ('p, 'c) world" where
  "logging_info msg w = w\<lparr>logged := logged w @ [(INFO, msg)]\<rparr>"

definition print :: "string \<Rightarrow> ('p, 'c) world \<Rightarrow> ('p, 'c) world" where
  "print s w = w\<lparr>printed := printed w @ [s]\<rparr>"

definition called :: "'p call \<Rightarrow> ('p, 'c) world \<Rightarrow> ('p, 'c) world" where
  "called c w = w\<lparr>calls := calls w @ [c]\<rparr>"

definition sys_exit :: "int \<Rightarrow> ('p, 'c) world \<Rightarrow> ('p, 'c) result" where
  "sys_exit n w = (Inl (SystemExit n), w)"

definition raise :: "exn \<Rightarrow> ('p, 'c) world \<Rightarrow> ('p, 'c) result" where
  "raise e w = (Inl (Raise e), w)"

definition return :: "('p, 'c) world \<Rightarrow> ('p, 'c) result" where
  "return w = (Inr (), w)"

text \<open>One statement after another: the second runs only when the first returned.\<close>

definition and_then ::
  "('p, 'c) result \<Rightarrow> (('p, 'c) world \<Rightarrow> ('p, 'c) result) \<Rightarrow> ('p, 'c) result" where
  "and_then r k = (case r of (Inl s, w) \<Rightarrow> (Inl s, w) | (Inr u, w) \<Rightarrow> k w)"

text \<open>
  \<open>os.makedirs(p, exist_ok=True)\<close>: nothing to do for a directory, \<open>FileExistsError\<close> for
  a file, and otherwise what the operating system decides.
\<close>

definition makedirs :: "('p, 'c) env \<Rightarrow> path \<Rightarrow> 'c disk \<Rightarrow> string + 'c disk" where
  "makedirs e p d =
     (case d p of
        Some Dir \<Rightarrow> Inr d
      | Some (File c) \<Rightarrow> Inl (''[Errno 17] File exists: '' @ quote p)
      | None \<Rightarrow> (case mkdir_error e p of Some msg \<Rightarrow> Inl msg | None \<Rightarrow> Inr (d(p \<mapsto> Dir))))"

section \<open>The messages of the program\<close>

definition msg_pdf2image_missing :: string where
  "msg_pdf2image_missing =
     ''The '' @ quote ''pdf2image'' @ '' library is not installed. Install it via: pip install pdf2image''"

definition msg_pdftoppm_not_in :: "path \<Rightarrow> string" where
  "msg_pdftoppm_not_in poppler_path =
     ''Poppler utility '' @ quote ''pdftoppm'' @ '' was not found in: '' @ poppler_path"

definition msg_pdftoppm_not_on_path :: string where
  "msg_pdftoppm_not_on_path =
     ''Poppler utility '' @ quote ''pdftoppm''
       @ '' is not in your PATH. Please install Poppler or provide --poppler_path.''"

definition msg_pdf_missing :: "path \<Rightarrow> string" where
  "msg_pdf_missing pdf_file = ''PDF file '' @ quote pdf_file @ '' does not exist.''"

definition msg_pdf_unreadable :: "path \<Rightarrow> string" where
  "msg_pdf_unreadable pdf_file =
     ''PDF file '' @ quote pdf_file @ '' is not readable. Check permissions.''"

definition msg_mkdir_failed :: "path \<Rightarrow> string \<Rightarrow> string" where
  "msg_mkdir_failed output_dir e =
     ''Failed to create output directory '' @ quote output_dir @ '': '' @ e"

definition msg_dir_unwritable :: "path \<Rightarrow> string" where
  "msg_dir_unwritable output_dir =
     ''Output directory '' @ quote output_dir @ '' is not writable. Check permissions.''"

definition msg_converting :: "path \<Rightarrow> string" where
  "msg_converting pdf_file = ''Converting '' @ quote pdf_file @ '' to images...''"

definition msg_jpeg :: string where
  "msg_jpeg =
     ''Jpeg does not have an alpha channel, and thus we might get '' @ [CHR 0x27]
       @ ''OSError: cannot write RGBA as JPEG. In any case, jpeg is not an acceptable format. ''
       @ ''Feel free to make it acceptable by modifying the code.''"

definition msg_saved :: "nat \<Rightarrow> path \<Rightarrow> string" where
  "msg_saved idx out_file = ''Saved page '' @ str_nat idx @ '' to '' @ quote out_file"

definition msg_complete :: string where
  "msg_complete = ''Conversion complete.''"

section \<open>The program\<close>

definition pdftoppm_cmd :: string where
  "pdftoppm_cmd = ''pdftoppm''"

definition check_dependencies ::
  "('p, 'c) env \<Rightarrow> path option \<Rightarrow> ('p, 'c) world \<Rightarrow> ('p, 'c) result" where
  "check_dependencies e poppler_path w =
     (let w1 = called Import_pdf2image w in
      if \<not> pdf2image_installed e then sys_exit 1 (logging_error msg_pdf2image_missing w1)
      else
        (case poppler_path of
           Some pp \<Rightarrow>
             (let pdftoppm_full = os_path_join pp pdftoppm_cmd;
                  w2 = called (Isfile pdftoppm_full) w1
              in if \<not> isfile (disk w2) pdftoppm_full
                 then sys_exit 1 (logging_error (msg_pdftoppm_not_in pp) w2)
                 else return w2)
         | None \<Rightarrow>
             (let w2 = called (Which pdftoppm_cmd) w1
              in if which e pdftoppm_cmd = None
                 then sys_exit 1 (logging_error msg_pdftoppm_not_on_path w2)
                 else return w2)))"

definition check_file_permissions ::
  "('p, 'c) env \<Rightarrow> path \<Rightarrow> path \<Rightarrow> ('p, 'c) world \<Rightarrow> ('p, 'c) result" where
  "check_file_permissions e pdf_file output_dir w =
     (let w1 = called (Isfile pdf_file) w in
      if \<not> isfile (disk w1) pdf_file then sys_exit 1 (logging_error (msg_pdf_missing pdf_file) w1)
      else
        (let w2 = called (Access_R pdf_file) w1 in
         if \<not> access_R e pdf_file
         then sys_exit 1 (logging_error (msg_pdf_unreadable pdf_file) w2)
         else
           and_then
             (let w3 = called (Isdir output_dir) w2 in
              if \<not> isdir (disk w3) output_dir then
                (let w4 = called (Makedirs output_dir) w3 in
                 case makedirs e output_dir (disk w4) of
                   Inl err \<Rightarrow> sys_exit 1 (logging_error (msg_mkdir_failed output_dir err) w4)
                 | Inr d \<Rightarrow> return (w4\<lparr>disk := d\<rparr>))
              else return w3)
             (\<lambda>w5.
                (let w6 = called (Access_W output_dir) w5 in
                 if \<not> access_W e output_dir
                 then sys_exit 1 (logging_error (msg_dir_unwritable output_dir) w6)
                 else return w6))))"

text \<open>The name of the file for page \<open>idx\<close>: line 107.\<close>

definition out_file_of :: "path \<Rightarrow> string \<Rightarrow> nat \<Rightarrow> path" where
  "out_file_of output_dir fmt idx =
     os_path_join output_dir (''page_'' @ str_nat idx @ ''.'' @ fmt)"

text \<open>The body of the loop over the pages: lines 107 to 115.\<close>

definition loop_body ::
  "('p, 'c) env \<Rightarrow> path \<Rightarrow> string \<Rightarrow> nat \<Rightarrow> 'p \<Rightarrow> ('p, 'c) world \<Rightarrow> ('p, 'c) result" where
  "loop_body e output_dir fmt idx page w =
     (let out_file = out_file_of output_dir fmt idx;
          w1 = print out_file w
      in if lower fmt = ''jpeg'' then sys_exit 1 (logging_error msg_jpeg w1)
         else
           (let w2 = called (Save page out_file (upper fmt)) w1 in
            case save e page out_file (upper fmt) of
              Inl ex \<Rightarrow> raise ex w2
            | Inr bytes \<Rightarrow>
                return (logging_info (msg_saved idx out_file)
                          (w2\<lparr>disk := (disk w2)(out_file \<mapsto> File bytes)\<rparr>))))"

text \<open>The loop \<open>for idx, page in enumerate(pages, start=1)\<close>, given the enumerated pages.\<close>

fun for_pages ::
  "('p, 'c) env \<Rightarrow> path \<Rightarrow> string \<Rightarrow> (nat \<times> 'p) list \<Rightarrow> ('p, 'c) world \<Rightarrow> ('p, 'c) result" where
  "for_pages e output_dir fmt [] w = return w"
| "for_pages e output_dir fmt ((idx, page) # rest) w =
     and_then (loop_body e output_dir fmt idx page w) (for_pages e output_dir fmt rest)"

definition convert_pdf_to_images ::
  "('p, 'c) env \<Rightarrow> path \<Rightarrow> path \<Rightarrow> int \<Rightarrow> string \<Rightarrow> path option \<Rightarrow> ('p, 'c) world
     \<Rightarrow> ('p, 'c) result" where
  "convert_pdf_to_images e pdf_file output_dir dpi fmt poppler_path w =
     (let w1 = called Import_convert_from_path w in
      if \<not> pdf2image_installed e then raise ImportError w1
      else
        (let w2 = logging_info (msg_converting pdf_file) w1;
             w3 = called (Convert_from_path pdf_file dpi fmt poppler_path) w2
         in case convert_from_path e pdf_file (read_file (disk w3) pdf_file) dpi fmt poppler_path of
              Inl ex \<Rightarrow> raise ex w3
            | Inr pages \<Rightarrow>
                and_then (for_pages e output_dir fmt (enumerate 1 pages) w3)
                  (\<lambda>w4. return (logging_info msg_complete w4))))"

definition main :: "('p, 'c) env \<Rightarrow> args \<Rightarrow> ('p, 'c) world \<Rightarrow> ('p, 'c) result" where
  "main e a w =
     and_then (check_dependencies e (args_poppler_path a) w)
       (\<lambda>w1. and_then (check_file_permissions e (args_pdf_file a) (args_output_dir a) w1)
          (\<lambda>w2.
             (let w3 = print (args_pdf_file a) w2;
                  w4 = print (args_output_dir a) w3;
                  w5 = print (args_fmt a) w4;
                  w6 = print (str_int (args_dpi a)) w5
              in convert_pdf_to_images e (args_pdf_file a) (args_output_dir a) (args_dpi a)
                   (args_fmt a) (args_poppler_path a) w6)))"

text \<open>
  The status with which the process ends: 0 when \<open>main\<close> returns, the argument of
  \<open>sys.exit\<close>, and 1 when the interpreter ends on an exception nobody caught.
\<close>

fun exit_code :: "stop + unit \<Rightarrow> int" where
  "exit_code (Inr u) = 0"
| "exit_code (Inl (SystemExit n)) = n"
| "exit_code (Inl (Raise ex)) = 1"

section \<open>What the checks test, and what a run leaves behind\<close>

text \<open>
  The conditions that the code of the four checks tests, named so that the theorems can
  refer to them; each is the condition of the source, read on the disk the check sees.
\<close>

definition toolchain_call :: "path option \<Rightarrow> 'p call" where
  "toolchain_call poppler_path =
     (case poppler_path of
        Some pp \<Rightarrow> Isfile (os_path_join pp pdftoppm_cmd)
      | None \<Rightarrow> Which pdftoppm_cmd)"

definition toolchain_found :: "('p, 'c) env \<Rightarrow> path option \<Rightarrow> 'c disk \<Rightarrow> bool" where
  "toolchain_found e poppler_path d =
     (case poppler_path of
        Some pp \<Rightarrow> isfile d (os_path_join pp pdftoppm_cmd)
      | None \<Rightarrow> which e pdftoppm_cmd \<noteq> None)"

definition msg_toolchain :: "path option \<Rightarrow> string" where
  "msg_toolchain poppler_path =
     (case poppler_path of
        Some pp \<Rightarrow> msg_pdftoppm_not_in pp
      | None \<Rightarrow> msg_pdftoppm_not_on_path)"

definition source_readable :: "('p, 'c) env \<Rightarrow> path \<Rightarrow> 'c disk \<Rightarrow> bool" where
  "source_readable e pdf_file d = (isfile d pdf_file \<and> access_R e pdf_file)"

definition destination_ready :: "('p, 'c) env \<Rightarrow> path \<Rightarrow> 'c disk \<Rightarrow> bool" where
  "destination_ready e output_dir d =
     (case makedirs e output_dir d of Inl err \<Rightarrow> False | Inr d' \<Rightarrow> access_W e output_dir)"

definition preconditions_hold :: "('p, 'c) env \<Rightarrow> args \<Rightarrow> 'c disk \<Rightarrow> bool" where
  "preconditions_hold e a d =
     (pdf2image_installed e \<and> toolchain_found e (args_poppler_path a) d
      \<and> source_readable e (args_pdf_file a) d \<and> destination_ready e (args_output_dir a) d)"

text \<open>The disk once \<open>os.makedirs\<close> has succeeded: a path that held nothing is a directory.\<close>

definition created :: "path \<Rightarrow> 'c disk \<Rightarrow> 'c disk" where
  "created output_dir d = (case d output_dir of None \<Rightarrow> d(output_dir \<mapsto> Dir) | Some n \<Rightarrow> d)"

text \<open>The calls of the four checks when all of them pass.\<close>

definition source_calls :: "path \<Rightarrow> 'p call list" where
  "source_calls pdf_file = [Isfile pdf_file, Access_R pdf_file]"

definition destination_calls :: "path \<Rightarrow> 'c disk \<Rightarrow> 'p call list" where
  "destination_calls output_dir d =
     Isdir output_dir # (if isdir d output_dir then [] else [Makedirs output_dir])
       @ [Access_W output_dir]"

definition check_calls :: "args \<Rightarrow> 'c disk \<Rightarrow> 'p call list" where
  "check_calls a d =
     [Import_pdf2image, toolchain_call (args_poppler_path a)]
       @ source_calls (args_pdf_file a) @ destination_calls (args_output_dir a) d"

fun is_save :: "'p call \<Rightarrow> bool" where
  "is_save (Save page out_file f) = True"
| "is_save c = False"

fun is_convert :: "'p call \<Rightarrow> bool" where
  "is_convert (Convert_from_path pdf_file dpi f poppler_path) = True"
| "is_convert c = False"

text \<open>The spellings of a word in upper and lower case letters.\<close>

fun casings :: "string \<Rightarrow> string list" where
  "casings [] = [[]]"
| "casings (c # cs) = concat (map (\<lambda>r. [lower_char c # r, upper_char c # r]) (casings cs))"

section \<open>A sample run\<close>

text \<open>
  A three-page \<open>sample.pdf\<close> converted into \<open>out/\<close> at 150 dpi, with the toolchain on the
  search path. The pages are numbers and the encoder writes the format and the number.
\<close>

definition sample_env :: "(nat, string) env" where
  "sample_env =
     \<lparr>pdf2image_installed = True,
      which = (\<lambda>cmd. if cmd = ''pdftoppm'' then Some ''/usr/bin/pdftoppm'' else None),
      access_R = (\<lambda>p. True),
      access_W = (\<lambda>p. True),
      mkdir_error = (\<lambda>p. None),
      convert_from_path =
        (\<lambda>p c d f pp. case c of Some b \<Rightarrow> Inr [10, 20, 30]
                               | None \<Rightarrow> Inl (LibraryError ''Unable to get page count.'')),
      save = (\<lambda>page p f. Inr (f @ '':'' @ str_nat page))\<rparr>"

definition sample_args :: args where
  "sample_args =
     \<lparr>args_pdf_file = ''sample.pdf'', args_output_dir = ''out/'', args_dpi = 150,
      args_fmt = ''png'', args_poppler_path = None\<rparr>"

definition sample_world :: "(nat, string) world" where
  "sample_world =
     \<lparr>disk = [''sample.pdf'' \<mapsto> File ''%PDF-1.4''], logged = [], printed = [], calls = []\<rparr>"

text \<open>The same run asked for \<open>jpeg\<close>, and a rasterization call that returns no page.\<close>

definition jpeg_args :: args where
  "jpeg_args = sample_args\<lparr>args_fmt := ''jpeg''\<rparr>"

definition no_pages_env :: "(nat, string) env" where
  "no_pages_env = sample_env\<lparr>convert_from_path := (\<lambda>p c d f pp. Inr [])\<rparr>"

text \<open>Environments in which one of the checks fails.\<close>

definition no_library_env :: "(nat, string) env" where
  "no_library_env = sample_env\<lparr>pdf2image_installed := False\<rparr>"

definition no_toolchain_env :: "(nat, string) env" where
  "no_toolchain_env = sample_env\<lparr>which := (\<lambda>cmd. None)\<rparr>"

definition unwritable_env :: "(nat, string) env" where
  "unwritable_env = sample_env\<lparr>access_W := (\<lambda>p. False)\<rparr>"

text \<open>A rasterization call that raises, and an encoder that fails on the second page.\<close>

definition failing_raster_env :: "(nat, string) env" where
  "failing_raster_env =
     sample_env\<lparr>convert_from_path :=
       (\<lambda>p c d f pp. Inl (LibraryError ''Unable to get page count.''))\<rparr>"

definition failing_save_env :: "(nat, string) env" where
  "failing_save_env =
     sample_env\<lparr>save :=
       (\<lambda>page p f. if page = 20 then Inl (LibraryError ''cannot write mode RGBA'')
                   else Inr (f @ '':'' @ str_nat page))\<rparr>"

section \<open>The checks, one outcome at a time\<close>

lemmas step_defs =
  called_def logging_error_def logging_info_def print_def sys_exit_def raise_def return_def
  and_then_def

lemma check_dependencies_missing:
  "\<not> pdf2image_installed e \<Longrightarrow>
   check_dependencies e pp w =
     sys_exit 1 (logging_error msg_pdf2image_missing (called Import_pdf2image w))"
  by (simp add: check_dependencies_def Let_def)

lemma check_dependencies_notool:
  "pdf2image_installed e \<Longrightarrow> \<not> toolchain_found e pp (disk w) \<Longrightarrow>
   check_dependencies e pp w =
     sys_exit 1 (logging_error (msg_toolchain pp)
       (called (toolchain_call pp) (called Import_pdf2image w)))"
  by (simp add: check_dependencies_def toolchain_found_def toolchain_call_def msg_toolchain_def
      called_def Let_def split: option.splits)

lemma check_dependencies_ok:
  "pdf2image_installed e \<Longrightarrow> toolchain_found e pp (disk w) \<Longrightarrow>
   check_dependencies e pp w = return (called (toolchain_call pp) (called Import_pdf2image w))"
  by (auto simp: check_dependencies_def toolchain_found_def toolchain_call_def
      called_def Let_def split: option.splits)

lemma makedirs_isdir: "isdir d p \<Longrightarrow> makedirs e p d = Inr d"
  by (auto simp: isdir_def makedirs_def split: option.splits node.splits)

lemma makedirs_Inr: "makedirs e p d = Inr d' \<Longrightarrow> d' = created p d"
  by (auto simp: isdir_def makedirs_def created_def split: option.splits node.splits)

lemma makedirs_Inl: "makedirs e p d = Inl err \<Longrightarrow> \<not> isdir d p"
  by (auto simp: isdir_def makedirs_def split: option.splits node.splits)

lemma check_file_permissions_missing:
  "\<not> isfile (disk w) pdf \<Longrightarrow>
   check_file_permissions e pdf out w =
     sys_exit 1 (logging_error (msg_pdf_missing pdf) (called (Isfile pdf) w))"
  by (simp add: check_file_permissions_def called_def Let_def)

lemma check_file_permissions_unreadable:
  "isfile (disk w) pdf \<Longrightarrow> \<not> access_R e pdf \<Longrightarrow>
   check_file_permissions e pdf out w =
     sys_exit 1 (logging_error (msg_pdf_unreadable pdf)
       (called (Access_R pdf) (called (Isfile pdf) w)))"
  by (simp add: check_file_permissions_def called_def Let_def)

lemma check_file_permissions_mkdir_failed:
  "source_readable e pdf (disk w) \<Longrightarrow> makedirs e out (disk w) = Inl err \<Longrightarrow>
   check_file_permissions e pdf out w =
     sys_exit 1 (logging_error (msg_mkdir_failed out err)
       (called (Makedirs out) (called (Isdir out) (called (Access_R pdf) (called (Isfile pdf) w)))))"
  using makedirs_Inl [of e out "disk w" err]
  by (simp add: check_file_permissions_def source_readable_def step_defs Let_def)

lemma check_file_permissions_unwritable:
  "source_readable e pdf (disk w) \<Longrightarrow> makedirs e out (disk w) = Inr d \<Longrightarrow>
   \<not> access_W e out \<Longrightarrow>
   check_file_permissions e pdf out w =
     sys_exit 1 (logging_error (msg_dir_unwritable out)
       (w\<lparr>disk := created out (disk w),
          calls := calls w @ source_calls pdf @ destination_calls out (disk w)\<rparr>))"
  using makedirs_Inr [of e out "disk w" d] makedirs_isdir [of "disk w" out e]
  by (simp add: check_file_permissions_def source_readable_def step_defs Let_def
      source_calls_def destination_calls_def created_def)

lemma check_file_permissions_ok:
  "source_readable e pdf (disk w) \<Longrightarrow> destination_ready e out (disk w) \<Longrightarrow>
   check_file_permissions e pdf out w =
     return (w\<lparr>disk := created out (disk w),
               calls := calls w @ source_calls pdf @ destination_calls out (disk w)\<rparr>)"
  using makedirs_Inr [of e out "disk w"] makedirs_isdir [of "disk w" out e]
  by (auto simp: check_file_permissions_def source_readable_def destination_ready_def step_defs
      Let_def source_calls_def destination_calls_def created_def split: sum.splits)

lemma main_no_pdf2image:
  "\<not> pdf2image_installed e \<Longrightarrow>
   main e a w = sys_exit 1 (logging_error msg_pdf2image_missing (called Import_pdf2image w))"
  by (simp add: main_def check_dependencies_missing) (simp add: sys_exit_def and_then_def)

lemma main_no_toolchain:
  "pdf2image_installed e \<Longrightarrow> \<not> toolchain_found e (args_poppler_path a) (disk w) \<Longrightarrow>
   main e a w =
     sys_exit 1 (logging_error (msg_toolchain (args_poppler_path a))
       (called (toolchain_call (args_poppler_path a)) (called Import_pdf2image w)))"
  by (simp add: main_def check_dependencies_notool) (simp add: sys_exit_def and_then_def)

text \<open>The world in which the third check starts.\<close>

lemma main_after_dependencies:
  "pdf2image_installed e \<Longrightarrow> toolchain_found e (args_poppler_path a) (disk w) \<Longrightarrow>
   main e a w =
     and_then (check_file_permissions e (args_pdf_file a) (args_output_dir a)
                 (w\<lparr>calls := calls w @ [Import_pdf2image, toolchain_call (args_poppler_path a)]\<rparr>))
       (\<lambda>w2. convert_pdf_to_images e (args_pdf_file a) (args_output_dir a) (args_dpi a)
               (args_fmt a) (args_poppler_path a)
               (w2\<lparr>printed := printed w2 @ [args_pdf_file a, args_output_dir a, args_fmt a,
                                               str_int (args_dpi a)]\<rparr>))"
  by (simp add: main_def check_dependencies_ok) (simp add: step_defs Let_def)

lemma main_pdf_missing:
  "pdf2image_installed e \<Longrightarrow> toolchain_found e (args_poppler_path a) (disk w) \<Longrightarrow>
   \<not> isfile (disk w) (args_pdf_file a) \<Longrightarrow>
   main e a w =
     sys_exit 1 (logging_error (msg_pdf_missing (args_pdf_file a))
       (w\<lparr>calls := calls w @ [Import_pdf2image, toolchain_call (args_poppler_path a),
                                 Isfile (args_pdf_file a)]\<rparr>))"
  by (simp add: main_after_dependencies check_file_permissions_missing)
     (simp add: step_defs)

lemma main_pdf_unreadable:
  "pdf2image_installed e \<Longrightarrow> toolchain_found e (args_poppler_path a) (disk w) \<Longrightarrow>
   isfile (disk w) (args_pdf_file a) \<Longrightarrow> \<not> access_R e (args_pdf_file a) \<Longrightarrow>
   main e a w =
     sys_exit 1 (logging_error (msg_pdf_unreadable (args_pdf_file a))
       (w\<lparr>calls := calls w @ [Import_pdf2image, toolchain_call (args_poppler_path a),
                                 Isfile (args_pdf_file a), Access_R (args_pdf_file a)]\<rparr>))"
  by (simp add: main_after_dependencies check_file_permissions_unreadable)
     (simp add: step_defs)

lemma main_mkdir_failed:
  "pdf2image_installed e \<Longrightarrow> toolchain_found e (args_poppler_path a) (disk w) \<Longrightarrow>
   source_readable e (args_pdf_file a) (disk w) \<Longrightarrow>
   makedirs e (args_output_dir a) (disk w) = Inl err \<Longrightarrow>
   main e a w =
     sys_exit 1 (logging_error (msg_mkdir_failed (args_output_dir a) err)
       (w\<lparr>calls := calls w @ [Import_pdf2image, toolchain_call (args_poppler_path a),
                                 Isfile (args_pdf_file a), Access_R (args_pdf_file a),
                                 Isdir (args_output_dir a), Makedirs (args_output_dir a)]\<rparr>))"
  by (simp add: main_after_dependencies check_file_permissions_mkdir_failed)
     (simp add: step_defs)

lemma main_dir_unwritable:
  "pdf2image_installed e \<Longrightarrow> toolchain_found e (args_poppler_path a) (disk w) \<Longrightarrow>
   source_readable e (args_pdf_file a) (disk w) \<Longrightarrow>
   makedirs e (args_output_dir a) (disk w) = Inr d \<Longrightarrow> \<not> access_W e (args_output_dir a) \<Longrightarrow>
   main e a w =
     sys_exit 1 (logging_error (msg_dir_unwritable (args_output_dir a))
       (w\<lparr>disk := created (args_output_dir a) (disk w),
          calls := calls w @ check_calls a (disk w)\<rparr>))"
  by (simp add: main_after_dependencies check_file_permissions_unwritable)
     (simp add: step_defs check_calls_def)

lemma main_checked:
  "preconditions_hold e a (disk w) \<Longrightarrow>
   main e a w =
     convert_pdf_to_images e (args_pdf_file a) (args_output_dir a) (args_dpi a) (args_fmt a)
       (args_poppler_path a)
       (w\<lparr>disk := created (args_output_dir a) (disk w),
          printed := printed w @ [args_pdf_file a, args_output_dir a, args_fmt a,
                                  str_int (args_dpi a)],
          calls := calls w @ check_calls a (disk w)\<rparr>)"
  by (cases w)
     (simp add: preconditions_hold_def main_after_dependencies check_file_permissions_ok
        step_defs check_calls_def)

section \<open>The loop over the pages\<close>

lemma loop_body_jpeg:
  "lower fmt = ''jpeg'' \<Longrightarrow>
   loop_body e out fmt i p w = sys_exit 1 (logging_error msg_jpeg (print (out_file_of out fmt i) w))"
  by (simp add: loop_body_def Let_def)

lemma loop_body_raise:
  "lower fmt \<noteq> ''jpeg'' \<Longrightarrow> save e p (out_file_of out fmt i) (upper fmt) = Inl ex \<Longrightarrow>
   loop_body e out fmt i p w =
     raise ex (called (Save p (out_file_of out fmt i) (upper fmt)) (print (out_file_of out fmt i) w))"
  by (simp add: loop_body_def Let_def)

lemma loop_body_saved:
  "lower fmt \<noteq> ''jpeg'' \<Longrightarrow> save e p (out_file_of out fmt i) (upper fmt) = Inr b \<Longrightarrow>
   loop_body e out fmt i p w =
     return (w\<lparr>disk := (disk w)(out_file_of out fmt i \<mapsto> File b),
               logged := logged w @ [(INFO, msg_saved i (out_file_of out fmt i))],
               printed := printed w @ [out_file_of out fmt i],
               calls := calls w @ [Save p (out_file_of out fmt i) (upper fmt)]\<rparr>)"
  by (cases w) (simp add: loop_body_def Let_def step_defs)

lemma for_pages_summary:
  "\<exists>st m lg pr cs.
     (\<forall>w. for_pages e out fmt xs w =
            (st, w\<lparr>disk := disk w ++ m, logged := logged w @ lg,
                   printed := printed w @ pr, calls := calls w @ cs\<rparr>))
     \<and> (\<forall>q n. m q = Some n \<longrightarrow> (\<exists>c. n = File c) \<and> q \<in> out_file_of out fmt ` fst ` set xs)
     \<and> (\<forall>c\<in>set cs. is_save c)
     \<and> (cs \<noteq> [] \<longrightarrow> lower fmt \<noteq> ''jpeg'')
     \<and> (st = Inr () \<and> ERROR \<notin> fst ` set lg
        \<or> st = Inl (SystemExit 1) \<and> lower fmt = ''jpeg'' \<and> lg = [(ERROR, msg_jpeg)]
        \<or> (\<exists>ex p q f l. st = Inl (Raise ex) \<and> cs = l @ [Save p q f] \<and> save e p q f = Inl ex
              \<and> ERROR \<notin> fst ` set lg))"
proof (induction xs)
  case Nil
  show ?case
    by (rule exI [of _ "Inr ()"], rule exI [of _ Map.empty], rule exI [of _ "[]"],
        rule exI [of _ "[]"], rule exI [of _ "[]"]) (simp add: return_def)
next
  case (Cons x xs)
  obtain i p where x: "x = (i, p)" by (cases x)
  let ?q = "out_file_of out fmt i"
  from Cons.IH obtain st m lg pr cs where
    run: "\<And>w. for_pages e out fmt xs w =
            (st, w\<lparr>disk := disk w ++ m, logged := logged w @ lg,
                   printed := printed w @ pr, calls := calls w @ cs\<rparr>)"
    and files: "\<And>q n. m q = Some n \<Longrightarrow> (\<exists>c. n = File c) \<and> q \<in> out_file_of out fmt ` fst ` set xs"
    and saves: "\<forall>c\<in>set cs. is_save c"
    and status: "st = Inr () \<and> ERROR \<notin> fst ` set lg
        \<or> st = Inl (SystemExit 1) \<and> lower fmt = ''jpeg'' \<and> lg = [(ERROR, msg_jpeg)]
        \<or> (\<exists>ex p q f l. st = Inl (Raise ex) \<and> cs = l @ [Save p q f] \<and> save e p q f = Inl ex
              \<and> ERROR \<notin> fst ` set lg)"
    by blast
  show ?case
  proof (cases "lower fmt = ''jpeg''")
    case True
    show ?thesis unfolding x
      by (rule exI [of _ "Inl (SystemExit 1)"], rule exI [of _ Map.empty],
          rule exI [of _ "[(ERROR, msg_jpeg)]"], rule exI [of _ "[?q]"], rule exI [of _ "[]"])
         (simp add: True loop_body_jpeg step_defs)
  next
    case False
    show ?thesis
    proof (cases "save e p ?q (upper fmt)")
      case (Inl ex)
      show ?thesis unfolding x
        by (rule exI [of _ "Inl (Raise ex)"], rule exI [of _ Map.empty], rule exI [of _ "[]"],
            rule exI [of _ "[?q]"], rule exI [of _ "[Save p ?q (upper fmt)]"])
           (simp add: False Inl loop_body_raise step_defs)
    next
      case (Inr b)
      have step: "\<And>w. for_pages e out fmt ((i, p) # xs) w =
          (st, w\<lparr>disk := disk w ++ ([?q \<mapsto> File b] ++ m),
                 logged := logged w @ ((INFO, msg_saved i ?q) # lg),
                 printed := printed w @ (?q # pr),
                 calls := calls w @ (Save p ?q (upper fmt) # cs)\<rparr>)"
        by (simp add: False Inr loop_body_saved run) (simp add: return_def and_then_def run)
      have files': "\<And>q n. ([?q \<mapsto> File b] ++ m) q = Some n \<Longrightarrow>
          (\<exists>c. n = File c) \<and> q \<in> out_file_of out fmt ` fst ` set ((i, p) # xs)"
        using files by (auto simp: map_add_def split: option.splits if_splits)
      have status': "st = Inr () \<and> ERROR \<notin> fst ` set ((INFO, msg_saved i ?q) # lg)
        \<or> st = Inl (SystemExit 1) \<and> lower fmt = ''jpeg''
             \<and> (INFO, msg_saved i ?q) # lg = [(ERROR, msg_jpeg)]
        \<or> (\<exists>ex p' q f l. st = Inl (Raise ex) \<and> Save p ?q (upper fmt) # cs = l @ [Save p' q f]
              \<and> save e p' q f = Inl ex \<and> ERROR \<notin> fst ` set ((INFO, msg_saved i ?q) # lg))"
      proof -
        from status False consider
          (ok) "st = Inr ()" "ERROR \<notin> fst ` set lg"
          | (exn) ex p' q f l where "st = Inl (Raise ex)" "cs = l @ [Save p' q f]"
              "save e p' q f = Inl ex" "ERROR \<notin> fst ` set lg"
          by blast
        then show ?thesis
        proof cases
          case ok
          then show ?thesis by simp
        next
          case exn
          have "Save p ?q (upper fmt) # cs = (Save p ?q (upper fmt) # l) @ [Save p' q f]"
            using exn(2) by simp
          with exn show ?thesis by (simp del: append_Cons)
        qed
      qed
      show ?thesis unfolding x
        apply (rule exI [of _ st], rule exI [of _ "[?q \<mapsto> File b] ++ m"],
            rule exI [of _ "(INFO, msg_saved i ?q) # lg"], rule exI [of _ "?q # pr"],
            rule exI [of _ "Save p ?q (upper fmt) # cs"])
        apply (intro conjI allI impI)
        subgoal for w by (rule step)
        subgoal for q n by (rule files' [THEN conjunct1])
        subgoal for q n by (rule files' [THEN conjunct2])
        subgoal using saves by simp
        subgoal using False by simp
        subgoal using status' by blast
        done
    qed
  qed
qed

section \<open>The conversion\<close>

lemma convert_raises:
  "pdf2image_installed e \<Longrightarrow>
   convert_from_path e pdf (read_file (disk w) pdf) dpi fmt pp = Inl ex \<Longrightarrow>
   convert_pdf_to_images e pdf out dpi fmt pp w =
     raise ex (w\<lparr>logged := logged w @ [(INFO, msg_converting pdf)],
                 calls := calls w @ [Import_convert_from_path, Convert_from_path pdf dpi fmt pp]\<rparr>)"
  by (cases w) (simp add: convert_pdf_to_images_def Let_def step_defs)

lemma convert_pages:
  "pdf2image_installed e \<Longrightarrow>
   convert_from_path e pdf (read_file (disk w) pdf) dpi fmt pp = Inr pages \<Longrightarrow>
   convert_pdf_to_images e pdf out dpi fmt pp w =
     and_then
       (for_pages e out fmt (enumerate 1 pages)
          (w\<lparr>logged := logged w @ [(INFO, msg_converting pdf)],
             calls := calls w @ [Import_convert_from_path, Convert_from_path pdf dpi fmt pp]\<rparr>))
       (\<lambda>w4. return (logging_info msg_complete w4))"
  by (cases w) (simp add: convert_pdf_to_images_def Let_def called_def logging_info_def)

lemma created_read_file:
  "isfile d pdf \<Longrightarrow> read_file (created out d) pdf = read_file d pdf"
  by (auto simp: created_def read_file_def isfile_def split: option.splits node.splits)

lemmas sample_defs =
  sample_env_def sample_args_def sample_world_def jpeg_args_def no_pages_env_def
  failing_raster_env_def failing_save_env_def no_library_env_def no_toolchain_env_def
  unwritable_env_def

lemmas check_defs =
  preconditions_hold_def toolchain_found_def source_readable_def destination_ready_def
  makedirs_def isfile_def isdir_def read_file_def pdftoppm_cmd_def

lemma sample_preconditions: "preconditions_hold sample_env sample_args (disk sample_world)"
  by (simp add: check_defs sample_defs)

lemma no_pages_preconditions: "preconditions_hold no_pages_env jpeg_args (disk sample_world)"
  by (simp add: check_defs sample_defs)

lemma read_file_created: "read_file (created out d) q = read_file d q"
  by (auto simp: created_def read_file_def split: option.splits node.splits)

lemma isfile_created: "isfile (created out d) q = isfile d q"
  by (auto simp: created_def isfile_def split: option.splits node.splits)

lemma check_calls_no_save: "c \<in> set (check_calls a d) \<Longrightarrow> \<not> is_save c \<and> \<not> is_convert c"
  by (auto simp: check_calls_def source_calls_def destination_calls_def toolchain_call_def
      split: option.splits if_splits)

text \<open>A run in which one of the four checks fails.\<close>

lemma main_failed:
  assumes "\<not> preconditions_hold e a (disk w)"
  shows "fst (main e a w) = Inl (SystemExit 1)
    \<and> (\<exists>msg. logged (snd (main e a w)) = logged w @ [(ERROR, msg)])
    \<and> (\<exists>cs. calls (snd (main e a w)) = calls w @ cs
          \<and> (\<forall>c \<in> set cs. \<not> is_save c \<and> \<not> is_convert c))
    \<and> (\<forall>q. read_file (disk (snd (main e a w))) q = read_file (disk w) q)
    \<and> printed (snd (main e a w)) = printed w"
proof -
  consider (dep) "\<not> pdf2image_installed e"
    | (tool) "pdf2image_installed e" "\<not> toolchain_found e (args_poppler_path a) (disk w)"
    | (missing) "pdf2image_installed e" "toolchain_found e (args_poppler_path a) (disk w)"
        "\<not> isfile (disk w) (args_pdf_file a)"
    | (unreadable) "pdf2image_installed e" "toolchain_found e (args_poppler_path a) (disk w)"
        "isfile (disk w) (args_pdf_file a)" "\<not> access_R e (args_pdf_file a)"
    | (mkdir) err where "pdf2image_installed e"
        "toolchain_found e (args_poppler_path a) (disk w)"
        "source_readable e (args_pdf_file a) (disk w)"
        "makedirs e (args_output_dir a) (disk w) = Inl err"
    | (unwritable) d where "pdf2image_installed e"
        "toolchain_found e (args_poppler_path a) (disk w)"
        "source_readable e (args_pdf_file a) (disk w)"
        "makedirs e (args_output_dir a) (disk w) = Inr d" "\<not> access_W e (args_output_dir a)"
    using assms
    by (cases "makedirs e (args_output_dir a) (disk w)")
       (auto simp: preconditions_hold_def source_readable_def destination_ready_def)
  then show ?thesis
  proof cases
    case dep
    then show ?thesis by (simp add: main_no_pdf2image step_defs)
  next
    case tool
    then show ?thesis
      by (simp add: main_no_toolchain step_defs toolchain_call_def split: option.splits)
  next
    case missing
    then show ?thesis
      by (simp add: main_pdf_missing step_defs toolchain_call_def split: option.splits)
  next
    case unreadable
    then show ?thesis
      by (simp add: main_pdf_unreadable step_defs toolchain_call_def split: option.splits)
  next
    case mkdir
    then show ?thesis
      by (simp add: main_mkdir_failed step_defs toolchain_call_def split: option.splits)
  next
    case unwritable
    then show ?thesis
      using check_calls_no_save [of _ a "disk w"]
      by (simp add: main_dir_unwritable step_defs read_file_created) blast
  qed
qed

lemma world_eqI:
  fixes v w :: "('p, 'c) world"
  shows "disk v = disk w \<Longrightarrow> logged v = logged w \<Longrightarrow> printed v = printed w \<Longrightarrow>
    calls v = calls w \<Longrightarrow> v = w"
  by (cases v, cases w) simp

lemma main_raster_raises:
  assumes pre: "preconditions_hold e a (disk w)"
    and ex: "convert_from_path e (args_pdf_file a) (read_file (disk w) (args_pdf_file a))
               (args_dpi a) (args_fmt a) (args_poppler_path a) = Inl ex"
  shows "main e a w =
     raise ex
       (w\<lparr>disk := created (args_output_dir a) (disk w),
          logged := logged w @ [(INFO, msg_converting (args_pdf_file a))],
          printed := printed w @ [args_pdf_file a, args_output_dir a, args_fmt a,
                                  str_int (args_dpi a)],
          calls := calls w @ check_calls a (disk w)
            @ [Import_convert_from_path,
               Convert_from_path (args_pdf_file a) (args_dpi a) (args_fmt a)
                 (args_poppler_path a)]\<rparr>)"
proof -
  have inst: "pdf2image_installed e"
    using pre by (simp add: preconditions_hold_def)
  let ?w = "w\<lparr>disk := created (args_output_dir a) (disk w),
          printed := printed w @ [args_pdf_file a, args_output_dir a, args_fmt a,
                                  str_int (args_dpi a)],
          calls := calls w @ check_calls a (disk w)\<rparr>"
  have "convert_from_path e (args_pdf_file a) (read_file (disk ?w) (args_pdf_file a))
               (args_dpi a) (args_fmt a) (args_poppler_path a) = Inl ex"
    using ex by (simp add: read_file_created)
  from convert_raises [OF inst this] show ?thesis
    unfolding main_checked [OF pre]
    by (simp add: raise_def)
qed

lemma main_pages:
  assumes pre: "preconditions_hold e a (disk w)"
    and pages: "convert_from_path e (args_pdf_file a) (read_file (disk w) (args_pdf_file a))
               (args_dpi a) (args_fmt a) (args_poppler_path a) = Inr pages"
  shows "main e a w =
     and_then
       (for_pages e (args_output_dir a) (args_fmt a) (enumerate 1 pages)
          (w\<lparr>disk := created (args_output_dir a) (disk w),
             logged := logged w @ [(INFO, msg_converting (args_pdf_file a))],
             printed := printed w @ [args_pdf_file a, args_output_dir a, args_fmt a,
                                     str_int (args_dpi a)],
             calls := calls w @ check_calls a (disk w)
               @ [Import_convert_from_path,
                  Convert_from_path (args_pdf_file a) (args_dpi a) (args_fmt a)
                    (args_poppler_path a)]\<rparr>))
       (\<lambda>w4. return (logging_info msg_complete w4))"
proof -
  have inst: "pdf2image_installed e"
    using pre by (simp add: preconditions_hold_def)
  let ?w = "w\<lparr>disk := created (args_output_dir a) (disk w),
          printed := printed w @ [args_pdf_file a, args_output_dir a, args_fmt a,
                                  str_int (args_dpi a)],
          calls := calls w @ check_calls a (disk w)\<rparr>"
  have same: "?w\<lparr>logged := logged ?w @ [(INFO, msg_converting (args_pdf_file a))],
        calls := calls ?w @ [Import_convert_from_path,
           Convert_from_path (args_pdf_file a) (args_dpi a) (args_fmt a) (args_poppler_path a)]\<rparr>
      = w\<lparr>disk := created (args_output_dir a) (disk w),
             logged := logged w @ [(INFO, msg_converting (args_pdf_file a))],
             printed := printed w @ [args_pdf_file a, args_output_dir a, args_fmt a,
                                     str_int (args_dpi a)],
             calls := calls w @ check_calls a (disk w)
               @ [Import_convert_from_path,
                  Convert_from_path (args_pdf_file a) (args_dpi a) (args_fmt a)
                    (args_poppler_path a)]\<rparr>"
    by (rule world_eqI) simp_all
  have "convert_from_path e (args_pdf_file a) (read_file (disk ?w) (args_pdf_file a))
               (args_dpi a) (args_fmt a) (args_poppler_path a) = Inr pages"
    using pages by (simp add: read_file_created)
  from convert_pages [OF inst this] show ?thesis
    unfolding main_checked [OF pre] same .
qed

text \<open>A run that reaches the loop: what the loop adds to the world the checks left.\<close>

lemma main_converted:
  assumes pre: "preconditions_hold e a (disk w)"
    and pages: "convert_from_path e (args_pdf_file a) (read_file (disk w) (args_pdf_file a))
               (args_dpi a) (args_fmt a) (args_poppler_path a) = Inr pages"
  shows "\<exists>st m lg pr cs.
     main e a w =
       (st, w\<lparr>disk := created (args_output_dir a) (disk w) ++ m,
              logged := logged w @ (INFO, msg_converting (args_pdf_file a)) # lg
                @ (if st = Inr () then [(INFO, msg_complete)] else []),
              printed := printed w @ [args_pdf_file a, args_output_dir a, args_fmt a,
                                      str_int (args_dpi a)] @ pr,
              calls := calls w @ check_calls a (disk w)
                @ [Import_convert_from_path,
                   Convert_from_path (args_pdf_file a) (args_dpi a) (args_fmt a)
                     (args_poppler_path a)] @ cs\<rparr>)
     \<and> (\<forall>q n. m q = Some n \<longrightarrow> (\<exists>c. n = File c)
           \<and> q \<in> out_file_of (args_output_dir a) (args_fmt a) ` fst ` set (enumerate 1 pages))
     \<and> (\<forall>c\<in>set cs. is_save c)
     \<and> (cs \<noteq> [] \<longrightarrow> lower (args_fmt a) \<noteq> ''jpeg'')
     \<and> (st = Inr () \<and> ERROR \<notin> fst ` set lg
        \<or> st = Inl (SystemExit 1) \<and> lower (args_fmt a) = ''jpeg'' \<and> lg = [(ERROR, msg_jpeg)]
        \<or> (\<exists>ex p q f l. st = Inl (Raise ex) \<and> cs = l @ [Save p q f] \<and> save e p q f = Inl ex
              \<and> ERROR \<notin> fst ` set lg))"
proof -
  from for_pages_summary [of e "args_output_dir a" "args_fmt a" "enumerate 1 pages"]
  obtain st m lg pr cs where
    run: "\<And>v. for_pages e (args_output_dir a) (args_fmt a) (enumerate 1 pages) v =
            (st, v\<lparr>disk := disk v ++ m, logged := logged v @ lg,
                   printed := printed v @ pr, calls := calls v @ cs\<rparr>)"
    and rest: "(\<forall>q n. m q = Some n \<longrightarrow> (\<exists>c. n = File c)
           \<and> q \<in> out_file_of (args_output_dir a) (args_fmt a) ` fst ` set (enumerate 1 pages))
     \<and> (\<forall>c\<in>set cs. is_save c)
     \<and> (cs \<noteq> [] \<longrightarrow> lower (args_fmt a) \<noteq> ''jpeg'')
     \<and> (st = Inr () \<and> ERROR \<notin> fst ` set lg
        \<or> st = Inl (SystemExit 1) \<and> lower (args_fmt a) = ''jpeg'' \<and> lg = [(ERROR, msg_jpeg)]
        \<or> (\<exists>ex p q f l. st = Inl (Raise ex) \<and> cs = l @ [Save p q f] \<and> save e p q f = Inl ex
              \<and> ERROR \<notin> fst ` set lg))"
    by blast
  have "main e a w =
       (st, w\<lparr>disk := created (args_output_dir a) (disk w) ++ m,
              logged := logged w @ (INFO, msg_converting (args_pdf_file a)) # lg
                @ (if st = Inr () then [(INFO, msg_complete)] else []),
              printed := printed w @ [args_pdf_file a, args_output_dir a, args_fmt a,
                                      str_int (args_dpi a)] @ pr,
              calls := calls w @ check_calls a (disk w)
                @ [Import_convert_from_path,
                   Convert_from_path (args_pdf_file a) (args_dpi a) (args_fmt a)
                     (args_poppler_path a)] @ cs\<rparr>)"
    unfolding main_pages [OF pre pages] run
    by (cases st) (auto simp: and_then_def return_def logging_info_def intro!: world_eqI)
  with rest show ?thesis by blast
qed

section \<open>A rasterization that returns no page\<close>

text \<open>
  Claim C9. When the four checks pass and the rasterization call returns an empty sequence
  of pages, the body of the loop never runs: the program logs the start of the conversion
  and \<open>Conversion complete.\<close>, makes no call after the rasterization call, writes no file
  (the disk is the one the checks left, with the output directory made if it was missing)
  and exits with status 0. This holds for every format; for \<open>jpeg\<close> too, whose rejection
  is never reached.
\<close>

theorem zero_pages_complete:
  assumes pre: "preconditions_hold e a (disk w)"
    and none: "convert_from_path e (args_pdf_file a) (read_file (disk w) (args_pdf_file a))
                 (args_dpi a) (args_fmt a) (args_poppler_path a) = Inr []"
  shows "fst (main e a w) = Inr ()
    \<and> exit_code (fst (main e a w)) = 0
    \<and> logged (snd (main e a w)) =
        logged w @ [(INFO, msg_converting (args_pdf_file a)), (INFO, msg_complete)]
    \<and> disk (snd (main e a w)) = created (args_output_dir a) (disk w)
    \<and> calls (snd (main e a w)) =
        calls w @ check_calls a (disk w)
          @ [Import_convert_from_path,
             Convert_from_path (args_pdf_file a) (args_dpi a) (args_fmt a) (args_poppler_path a)]"
proof -
  have inst: "pdf2image_installed e" and src: "isfile (disk w) (args_pdf_file a)"
    using pre by (simp_all add: preconditions_hold_def source_readable_def)
  let ?w = "w\<lparr>disk := created (args_output_dir a) (disk w),
          printed := printed w @ [args_pdf_file a, args_output_dir a, args_fmt a,
                                  str_int (args_dpi a)],
          calls := calls w @ check_calls a (disk w)\<rparr>"
  have "convert_from_path e (args_pdf_file a) (read_file (disk ?w) (args_pdf_file a))
                 (args_dpi a) (args_fmt a) (args_poppler_path a) = Inr []"
    using none src by (simp add: created_read_file)
  then have "main e a w = and_then (for_pages e (args_output_dir a) (args_fmt a) (enumerate 1 [])
          (?w\<lparr>logged := logged ?w @ [(INFO, msg_converting (args_pdf_file a))],
             calls := calls ?w @ [Import_convert_from_path, Convert_from_path (args_pdf_file a) (args_dpi a) (args_fmt a) (args_poppler_path a)]\<rparr>))
       (\<lambda>w4. return (logging_info msg_complete w4))"
    unfolding main_checked [OF pre] by (rule convert_pages [OF inst])
  then show ?thesis
    by (simp add: step_defs)
qed

theorem zero_pages_complete_witness:
  "preconditions_hold no_pages_env jpeg_args (disk sample_world)
   \<and> convert_from_path no_pages_env (args_pdf_file jpeg_args)
        (read_file (disk sample_world) (args_pdf_file jpeg_args)) (args_dpi jpeg_args)
        (args_fmt jpeg_args) (args_poppler_path jpeg_args) = Inr []
   \<and> args_fmt jpeg_args = ''jpeg''
   \<and> fst (main no_pages_env jpeg_args sample_world) = Inr ()
   \<and> exit_code (fst (main no_pages_env jpeg_args sample_world)) = 0
   \<and> logged (snd (main no_pages_env jpeg_args sample_world)) =
        [(INFO, msg_converting ''sample.pdf''), (INFO, msg_complete)]
   \<and> disk (snd (main no_pages_env jpeg_args sample_world)) =
        [''sample.pdf'' \<mapsto> File ''%PDF-1.4'', ''out/'' \<mapsto> Dir]"
proof -
  have pages: "convert_from_path no_pages_env (args_pdf_file jpeg_args)
        (read_file (disk sample_world) (args_pdf_file jpeg_args)) (args_dpi jpeg_args)
        (args_fmt jpeg_args) (args_poppler_path jpeg_args) = Inr []"
    by (simp add: sample_defs)
  show ?thesis
    using zero_pages_complete [OF no_pages_preconditions pages] no_pages_preconditions pages
    by (simp add: sample_defs created_def)
qed

text \<open>
  Claim C1, at the input where the code departs from it: the sample run asked for \<open>jpeg\<close>,
  with a rasterization call that returns no page. The run ends with status 0, logs two
  lines at level \<open>INFO\<close>, the last of them \<open>Conversion complete.\<close>, and no error.
\<close>

theorem jpeg_with_no_page_exits_0:
  "fst (main no_pages_env jpeg_args sample_world) = Inr ()
   \<and> exit_code (fst (main no_pages_env jpeg_args sample_world)) = 0
   \<and> map fst (logged (snd (main no_pages_env jpeg_args sample_world))) = [INFO, INFO]
   \<and> last (logged (snd (main no_pages_env jpeg_args sample_world))) = (INFO, msg_complete)"
  by code_simp

lemma casings_jpeg: "\<forall>f \<in> set (casings ''jpeg''). lower f = ''jpeg''"
  by code_simp

lemma casings_jpg: "\<forall>f \<in> set (casings ''jpg''). lower f \<noteq> ''jpeg'' \<and> upper f = ''JPG''"
  by code_simp

lemma casings_examples:
  "''JPEG'' \<in> set (casings ''jpeg'')" "''Jpeg'' \<in> set (casings ''jpeg'')"
  "''jpeg'' \<in> set (casings ''jpeg'')" "''jpg'' \<in> set (casings ''jpg'')"
  "''JPG'' \<in> set (casings ''jpg'')" "length (casings ''jpeg'') = 16"
  "distinct (casings ''jpeg'')"
  by code_simp+

section \<open>The rejected format\<close>

text \<open>A run asked for \<open>jpeg\<close>, in any casing, that reaches the loop.\<close>

lemma main_jpeg:
  assumes pre: "preconditions_hold e a (disk w)"
    and pages: "convert_from_path e (args_pdf_file a) (read_file (disk w) (args_pdf_file a))
               (args_dpi a) (args_fmt a) (args_poppler_path a) = Inr pages"
    and jpeg: "lower (args_fmt a) = ''jpeg''"
  shows "main e a w =
     (if pages = [] then Inr () else Inl (SystemExit 1),
      w\<lparr>disk := created (args_output_dir a) (disk w),
         logged := logged w @ [(INFO, msg_converting (args_pdf_file a)),
                    if pages = [] then (INFO, msg_complete) else (ERROR, msg_jpeg)],
         printed := printed w @ [args_pdf_file a, args_output_dir a, args_fmt a,
                                 str_int (args_dpi a)]
           @ (if pages = [] then [] else [out_file_of (args_output_dir a) (args_fmt a) 1]),
         calls := calls w @ check_calls a (disk w)
           @ [Import_convert_from_path,
              Convert_from_path (args_pdf_file a) (args_dpi a) (args_fmt a)
                (args_poppler_path a)]\<rparr>)"
proof (cases pages)
  case Nil
  show ?thesis
    unfolding main_pages [OF pre pages]
    by (auto simp: Nil step_defs intro!: world_eqI)
next
  case (Cons pg pgs)
  show ?thesis
    unfolding main_pages [OF pre pages]
    by (auto simp: Cons loop_body_jpeg [OF jpeg] step_defs intro!: world_eqI)
qed

text \<open>
  Claim C10. The rejection tests \<open>fmt.lower() == 'jpeg'\<close>: an iteration of the loop ends in
  \<open>sys.exit(1)\<close> exactly when the lowercased format is \<open>jpeg\<close>. So every casing of
  \<open>jpeg\<close> is rejected, with the error logged and, in a run that reaches the loop with a
  page, exit code 1; and no casing of \<open>jpg\<close> is rejected: the iteration goes on to call
  \<open>page.save\<close> with the format \<open>JPG\<close>.
\<close>

theorem rejection_is_lowercase_jpeg:
  "(fst (loop_body e out fmt i p w) = Inl (SystemExit 1)) = (lower fmt = ''jpeg'')
   \<and> (\<forall>f \<in> set (casings ''jpeg'').
         loop_body e out f i p w =
           sys_exit 1 (logging_error msg_jpeg (print (out_file_of out f i) w))
         \<and> exit_code (fst (loop_body e out f i p w)) = 1
         \<and> (args_fmt a = f \<and> preconditions_hold e a (disk w)
              \<and> convert_from_path e (args_pdf_file a) (read_file (disk w) (args_pdf_file a))
                   (args_dpi a) f (args_poppler_path a) = Inr (pg # pgs)
             \<longrightarrow> exit_code (fst (main e a w)) = 1
                 \<and> last (logged (snd (main e a w))) = (ERROR, msg_jpeg)))
   \<and> (\<forall>f \<in> set (casings ''jpg'').
         fst (loop_body e out f i p w) \<noteq> Inl (SystemExit 1)
         \<and> calls (snd (loop_body e out f i p w)) = calls w @ [Save p (out_file_of out f i) ''JPG''])"
proof (intro conjI ballI)
  show "(fst (loop_body e out fmt i p w) = Inl (SystemExit 1)) = (lower fmt = ''jpeg'')"
    by (cases "save e p (out_file_of out fmt i) (upper fmt)")
       (auto simp: loop_body_def Let_def step_defs)
next
  fix f assume "f \<in> set (casings ''jpeg'')"
  then have jpeg: "lower f = ''jpeg''"
    using casings_jpeg by blast
  show "loop_body e out f i p w =
      sys_exit 1 (logging_error msg_jpeg (print (out_file_of out f i) w))"
    by (rule loop_body_jpeg [OF jpeg])
  then show "exit_code (fst (loop_body e out f i p w)) = 1"
    by (simp add: sys_exit_def)
  show "args_fmt a = f \<and> preconditions_hold e a (disk w)
       \<and> convert_from_path e (args_pdf_file a) (read_file (disk w) (args_pdf_file a))
            (args_dpi a) f (args_poppler_path a) = Inr (pg # pgs)
     \<longrightarrow> exit_code (fst (main e a w)) = 1
         \<and> last (logged (snd (main e a w))) = (ERROR, msg_jpeg)"
  proof (intro impI, elim conjE)
    assume f: "args_fmt a = f" and pre: "preconditions_hold e a (disk w)"
      and "convert_from_path e (args_pdf_file a) (read_file (disk w) (args_pdf_file a))
            (args_dpi a) f (args_poppler_path a) = Inr (pg # pgs)"
    then have pages: "convert_from_path e (args_pdf_file a)
        (read_file (disk w) (args_pdf_file a)) (args_dpi a) (args_fmt a) (args_poppler_path a)
        = Inr (pg # pgs)"
      by simp
    from jpeg f have "lower (args_fmt a) = ''jpeg''" by simp
    from main_jpeg [OF pre pages this]
    show "exit_code (fst (main e a w)) = 1
         \<and> last (logged (snd (main e a w))) = (ERROR, msg_jpeg)"
      by simp
  qed
next
  fix f assume "f \<in> set (casings ''jpg'')"
  then have jpg: "lower f \<noteq> ''jpeg''" "upper f = ''JPG''"
    using casings_jpg by blast+
  show "fst (loop_body e out f i p w) \<noteq> Inl (SystemExit 1)"
    using jpg(1)
    by (cases "save e p (out_file_of out f i) (upper f)")
       (auto simp: loop_body_def Let_def step_defs)
  show "calls (snd (loop_body e out f i p w)) = calls w @ [Save p (out_file_of out f i) ''JPG'']"
    using jpg
    by (cases "save e p (out_file_of out f i) (upper f)")
       (auto simp: loop_body_def Let_def step_defs)
qed

lemma out_file_sample: "out_file_of ''out/'' f (Suc 0) = ''out/page_1.'' @ f"
  by (simp add: out_file_of_def os_path_join_def str_nat.simps digit_char_def char_of_eq_iff)

theorem rejection_is_lowercase_jpeg_witness:
  "''JPEG'' \<in> set (casings ''jpeg'') \<and> ''Jpg'' \<in> set (casings ''jpg'')
   \<and> args_fmt (sample_args\<lparr>args_fmt := ''JPEG''\<rparr>) = ''JPEG''
   \<and> preconditions_hold sample_env (sample_args\<lparr>args_fmt := ''JPEG''\<rparr>) (disk sample_world)
   \<and> convert_from_path sample_env ''sample.pdf'' (read_file (disk sample_world) ''sample.pdf'')
        150 ''JPEG'' None = Inr [10, 20, 30]
   \<and> fst (loop_body sample_env ''out/'' ''JPEG'' 1 10 sample_world) = Inl (SystemExit 1)
   \<and> logged (snd (loop_body sample_env ''out/'' ''JPEG'' 1 10 sample_world)) = [(ERROR, msg_jpeg)]
   \<and> exit_code (fst (main sample_env (sample_args\<lparr>args_fmt := ''JPEG''\<rparr>) sample_world)) = 1
   \<and> last (logged (snd (main sample_env (sample_args\<lparr>args_fmt := ''JPEG''\<rparr>) sample_world)))
       = (ERROR, msg_jpeg)
   \<and> fst (loop_body sample_env ''out/'' ''Jpg'' 1 10 sample_world) \<noteq> Inl (SystemExit 1)
   \<and> calls (snd (loop_body sample_env ''out/'' ''Jpg'' 1 10 sample_world))
       = [Save 10 ''out/page_1.Jpg'' ''JPG'']"
proof -
  have c1: "''JPEG'' \<in> set (casings ''jpeg'')" and c2: "''Jpg'' \<in> set (casings ''jpg'')"
    by code_simp+
  have pre: "preconditions_hold sample_env (sample_args\<lparr>args_fmt := ''JPEG''\<rparr>) (disk sample_world)"
    by (simp add: check_defs sample_defs)
  have pages: "convert_from_path sample_env ''sample.pdf''
      (read_file (disk sample_world) ''sample.pdf'') 150 ''JPEG'' None = Inr [10, 20, 30]"
    by (simp add: sample_defs read_file_def)
  note inst = rejection_is_lowercase_jpeg [of sample_env "''out/''" "''JPEG''" 1 10 sample_world
      "sample_args\<lparr>args_fmt := ''JPEG''\<rparr>" 10 "[20, 30]"]
  from inst c1 have j: "loop_body sample_env ''out/'' ''JPEG'' 1 10 sample_world =
           sys_exit 1 (logging_error msg_jpeg (print (out_file_of ''out/'' ''JPEG'' 1) sample_world))"
    by blast
  let ?a = "sample_args\<lparr>args_fmt := ''JPEG''\<rparr>"
  have af: "args_fmt ?a = ''JPEG''"
    by simp
  have pages': "convert_from_path sample_env (args_pdf_file ?a)
      (read_file (disk sample_world) (args_pdf_file ?a)) (args_dpi ?a) ''JPEG''
      (args_poppler_path ?a) = Inr [10, 20, 30]"
    by (simp add: sample_defs read_file_def)
  from inst c1 af pre pages'
  have m: "exit_code (fst (main sample_env (sample_args\<lparr>args_fmt := ''JPEG''\<rparr>) sample_world)) = 1
     \<and> last (logged (snd (main sample_env (sample_args\<lparr>args_fmt := ''JPEG''\<rparr>) sample_world)))
         = (ERROR, msg_jpeg)"
    by blast
  from inst c2 have g: "fst (loop_body sample_env ''out/'' ''Jpg'' 1 10 sample_world) \<noteq> Inl (SystemExit 1)
     \<and> calls (snd (loop_body sample_env ''out/'' ''Jpg'' 1 10 sample_world))
         = calls sample_world @ [Save 10 (out_file_of ''out/'' ''Jpg'' 1) ''JPG'']"
    by blast
  show ?thesis
    using c1 c2 pre pages j m g
    by (simp add: step_defs out_file_sample sample_world_def sample_args_def)
qed

text \<open>
  Claim C5. With the format \<open>jpeg\<close> (in any casing) no run calls \<open>page.save\<close> and no run
  changes the content of a file. The test stands in the body of the loop, before the save
  of the same iteration: every iteration ends in \<open>sys.exit(1)\<close> with the calls and the
  disk as they were. It does not stand before the loop: when the four checks pass, the
  rasterization call has been made by the time the format is looked at.
\<close>

theorem jpeg_never_reaches_save:
  assumes jpeg: "lower (args_fmt a) = ''jpeg''"
  shows "(\<exists>cs. calls (snd (main e a w)) = calls w @ cs
            \<and> (\<forall>c \<in> set cs. \<not> is_save c)
            \<and> (preconditions_hold e a (disk w) \<longrightarrow>
                  Convert_from_path (args_pdf_file a) (args_dpi a) (args_fmt a)
                    (args_poppler_path a) \<in> set cs))
     \<and> (\<forall>q. read_file (disk (snd (main e a w))) q = read_file (disk w) q)
     \<and> (\<forall>i p v. fst (loop_body e (args_output_dir a) (args_fmt a) i p v) = Inl (SystemExit 1)
            \<and> calls (snd (loop_body e (args_output_dir a) (args_fmt a) i p v)) = calls v
            \<and> disk (snd (loop_body e (args_output_dir a) (args_fmt a) i p v)) = disk v)"
proof (intro conjI)
  show "\<forall>i p v. fst (loop_body e (args_output_dir a) (args_fmt a) i p v) = Inl (SystemExit 1)
            \<and> calls (snd (loop_body e (args_output_dir a) (args_fmt a) i p v)) = calls v
            \<and> disk (snd (loop_body e (args_output_dir a) (args_fmt a) i p v)) = disk v"
    by (simp add: loop_body_jpeg [OF jpeg] step_defs)
next
  show "\<exists>cs. calls (snd (main e a w)) = calls w @ cs
            \<and> (\<forall>c \<in> set cs. \<not> is_save c)
            \<and> (preconditions_hold e a (disk w) \<longrightarrow>
                  Convert_from_path (args_pdf_file a) (args_dpi a) (args_fmt a)
                    (args_poppler_path a) \<in> set cs)"
  proof (cases "preconditions_hold e a (disk w)")
    case False
    with main_failed [OF False] show ?thesis by blast
  next
    case True
    show ?thesis
    proof (cases "convert_from_path e (args_pdf_file a) (read_file (disk w) (args_pdf_file a))
               (args_dpi a) (args_fmt a) (args_poppler_path a)")
      case (Inl ex)
      show ?thesis
        using check_calls_no_save [of _ a "disk w"]
        by (auto simp: main_raster_raises [OF True Inl] raise_def)
    next
      case (Inr pages)
      show ?thesis
        using check_calls_no_save [of _ a "disk w"]
        by (auto simp: main_jpeg [OF True Inr jpeg])
    qed
  qed
next
  show "\<forall>q. read_file (disk (snd (main e a w))) q = read_file (disk w) q"
  proof (cases "preconditions_hold e a (disk w)")
    case False
    with main_failed [OF False] show ?thesis by blast
  next
    case True
    show ?thesis
    proof (cases "convert_from_path e (args_pdf_file a) (read_file (disk w) (args_pdf_file a))
               (args_dpi a) (args_fmt a) (args_poppler_path a)")
      case (Inl ex)
      show ?thesis
        by (simp add: main_raster_raises [OF True Inl] raise_def read_file_created)
    next
      case (Inr pages)
      show ?thesis
        by (simp add: main_jpeg [OF True Inr jpeg] read_file_created)
    qed
  qed
qed

lemma jpeg_preconditions: "preconditions_hold sample_env jpeg_args (disk sample_world)"
  by (simp add: check_defs sample_defs)

theorem jpeg_never_reaches_save_witness:
  "lower (args_fmt jpeg_args) = ''jpeg''
   \<and> preconditions_hold sample_env jpeg_args (disk sample_world)
   \<and> (\<exists>cs. calls (snd (main sample_env jpeg_args sample_world)) = calls sample_world @ cs
         \<and> (\<forall>c \<in> set cs. \<not> is_save c)
         \<and> Convert_from_path ''sample.pdf'' 150 ''jpeg'' None \<in> set cs)
   \<and> read_file (disk (snd (main sample_env jpeg_args sample_world))) ''out/page_1.jpeg'' = None
   \<and> fst (loop_body sample_env ''out/'' ''jpeg'' 2 20 sample_world) = Inl (SystemExit 1)"
proof -
  have jpeg: "lower (args_fmt jpeg_args) = ''jpeg''"
    by (simp add: sample_defs lower_def lower_char_def)
  have none: "read_file (disk sample_world) ''out/page_1.jpeg'' = None"
    by (simp add: sample_defs read_file_def)
  have sel: "args_pdf_file jpeg_args = ''sample.pdf''" "args_dpi jpeg_args = 150"
    "args_fmt jpeg_args = ''jpeg''" "args_poppler_path jpeg_args = None"
    "args_output_dir jpeg_args = ''out/''"
    by (simp_all add: sample_defs)
  from jpeg_never_reaches_save [OF jpeg, of sample_env sample_world] jpeg_preconditions jpeg none
  show ?thesis
    unfolding sel by metis
qed

section \<open>Errors\<close>




section \<open>The source file and the output directory\<close>

text \<open>
  Claim C6. When the source path is not a file, or is not readable, the run logs one error
  and exits with status 1, and neither the rasterization call nor a save is among its
  calls. If the two checks of the dependencies pass, the error is the one of the source
  check (\<open>does not exist\<close> or \<open>is not readable\<close>) and the last call is that check.
\<close>

theorem unreadable_source_stops_the_run:
  assumes "\<not> source_readable e (args_pdf_file a) (disk w)"
  shows "exit_code (fst (main e a w)) = 1
    \<and> (\<exists>msg. logged (snd (main e a w)) = logged w @ [(ERROR, msg)])
    \<and> (\<exists>cs. calls (snd (main e a w)) = calls w @ cs
          \<and> (\<forall>c \<in> set cs. \<not> is_convert c \<and> \<not> is_save c))
    \<and> (pdf2image_installed e \<and> toolchain_found e (args_poppler_path a) (disk w) \<longrightarrow>
          logged (snd (main e a w)) =
            logged w @ [(ERROR, if isfile (disk w) (args_pdf_file a)
                                then msg_pdf_unreadable (args_pdf_file a)
                                else msg_pdf_missing (args_pdf_file a))]
          \<and> calls (snd (main e a w)) =
            calls w @ [Import_pdf2image, toolchain_call (args_poppler_path a),
                       Isfile (args_pdf_file a)]
              @ (if isfile (disk w) (args_pdf_file a) then [Access_R (args_pdf_file a)] else []))"
proof -
  have fail: "\<not> preconditions_hold e a (disk w)"
    using assms by (simp add: preconditions_hold_def)
  have "pdf2image_installed e \<and> toolchain_found e (args_poppler_path a) (disk w) \<longrightarrow>
          logged (snd (main e a w)) =
            logged w @ [(ERROR, if isfile (disk w) (args_pdf_file a)
                                then msg_pdf_unreadable (args_pdf_file a)
                                else msg_pdf_missing (args_pdf_file a))]
          \<and> calls (snd (main e a w)) =
            calls w @ [Import_pdf2image, toolchain_call (args_poppler_path a),
                       Isfile (args_pdf_file a)]
              @ (if isfile (disk w) (args_pdf_file a) then [Access_R (args_pdf_file a)] else [])"
    using assms
    by (cases "isfile (disk w) (args_pdf_file a)")
       (simp_all add: source_readable_def main_pdf_missing main_pdf_unreadable step_defs)
  with main_failed [OF fail] show ?thesis
    by auto
qed

theorem unreadable_source_stops_the_run_witness:
  "\<not> source_readable sample_env (args_pdf_file sample_args) (disk (sample_world\<lparr>disk := Map.empty\<rparr>))
   \<and> pdf2image_installed sample_env
   \<and> toolchain_found sample_env (args_poppler_path sample_args)
        (disk (sample_world\<lparr>disk := Map.empty\<rparr>))
   \<and> exit_code (fst (main sample_env sample_args (sample_world\<lparr>disk := Map.empty\<rparr>))) = 1
   \<and> logged (snd (main sample_env sample_args (sample_world\<lparr>disk := Map.empty\<rparr>)))
       = [(ERROR, msg_pdf_missing ''sample.pdf'')]
   \<and> calls (snd (main sample_env sample_args (sample_world\<lparr>disk := Map.empty\<rparr>)))
       = [Import_pdf2image, Which ''pdftoppm'', Isfile ''sample.pdf'']"
proof -
  let ?w = "sample_world\<lparr>disk := Map.empty\<rparr>"
  have src: "\<not> source_readable sample_env (args_pdf_file sample_args) (disk ?w)"
    by (simp add: check_defs sample_defs)
  have dep: "pdf2image_installed sample_env"
    "toolchain_found sample_env (args_poppler_path sample_args) (disk ?w)"
    by (simp_all add: check_defs sample_defs)
  from unreadable_source_stops_the_run [OF src] src dep
  show ?thesis
    by (simp add: isfile_def toolchain_call_def pdftoppm_cmd_def sample_args_def sample_world_def)
qed

lemma os_path_join_longer: "b \<noteq> [] \<Longrightarrow> hd b \<noteq> CHR ''/'' \<Longrightarrow> os_path_join a b \<noteq> a"
  by (simp add: os_path_join_def)

lemma out_file_of_not_dir: "out_file_of out fmt i \<noteq> out"
  unfolding out_file_of_def by (rule os_path_join_longer) simp_all

lemma created_isdir:
  "makedirs e out d = Inr d' \<Longrightarrow> isdir (created out d) out"
  by (auto simp: makedirs_def created_def isdir_def split: option.splits node.splits)

lemma destination_calls_makedirs:
  "\<not> isdir d out \<Longrightarrow>
   destination_calls out d = [Isdir out] @ Makedirs out # [Access_W out]"
  by (simp add: destination_calls_def)

text \<open>
  Claim C7. Whenever a run saves a page, the output directory is on the disk at the end
  and, if it was missing at the start, \<open>os.makedirs\<close> was called for it before the first
  save. And when the directory cannot be made or is not writable, the run exits with
  status 1 after logging one error, saves nothing and leaves the content of every file as
  it was; if the earlier checks pass, that error is the one of the directory check.
\<close>

theorem output_directory_before_pages:
  "(\<exists>cs. calls (snd (main e a w)) = calls w @ cs
      \<and> ((\<exists>c \<in> set cs. is_save c) \<longrightarrow>
            isdir (disk (snd (main e a w))) (args_output_dir a)
            \<and> (\<not> isdir (disk w) (args_output_dir a) \<longrightarrow>
                 (\<exists>before after. cs = before @ Makedirs (args_output_dir a) # after
                    \<and> (\<forall>c \<in> set before. \<not> is_save c)))))
   \<and> (\<not> destination_ready e (args_output_dir a) (disk w) \<longrightarrow>
        exit_code (fst (main e a w)) = 1
        \<and> (\<exists>msg. logged (snd (main e a w)) = logged w @ [(ERROR, msg)])
        \<and> (\<exists>cs. calls (snd (main e a w)) = calls w @ cs \<and> (\<forall>c \<in> set cs. \<not> is_save c))
        \<and> (\<forall>q. read_file (disk (snd (main e a w))) q = read_file (disk w) q)
        \<and> (pdf2image_installed e \<and> toolchain_found e (args_poppler_path a) (disk w)
             \<and> source_readable e (args_pdf_file a) (disk w) \<longrightarrow>
               logged (snd (main e a w)) =
                 logged w @ [(ERROR, case makedirs e (args_output_dir a) (disk w) of
                                       Inl err \<Rightarrow> msg_mkdir_failed (args_output_dir a) err
                                     | Inr d \<Rightarrow> msg_dir_unwritable (args_output_dir a))]))"
proof (intro conjI impI)
  show "\<exists>cs. calls (snd (main e a w)) = calls w @ cs
      \<and> ((\<exists>c \<in> set cs. is_save c) \<longrightarrow>
            isdir (disk (snd (main e a w))) (args_output_dir a)
            \<and> (\<not> isdir (disk w) (args_output_dir a) \<longrightarrow>
                 (\<exists>before after. cs = before @ Makedirs (args_output_dir a) # after
                    \<and> (\<forall>c \<in> set before. \<not> is_save c))))"
  proof (cases "preconditions_hold e a (disk w)")
    case False
    from main_failed [OF False] show ?thesis by blast
  next
    case True
    then obtain d where mk: "makedirs e (args_output_dir a) (disk w) = Inr d"
      by (auto simp: preconditions_hold_def destination_ready_def split: sum.splits)
    have dir: "isdir (created (args_output_dir a) (disk w)) (args_output_dir a)"
      by (rule created_isdir [OF mk])
    let ?first = "[Import_pdf2image, toolchain_call (args_poppler_path a)]
        @ source_calls (args_pdf_file a) @ [Isdir (args_output_dir a)]"
    have first: "\<forall>c \<in> set ?first. \<not> is_save c"
      by (auto simp: source_calls_def toolchain_call_def split: option.splits)
    have chk: "\<not> isdir (disk w) (args_output_dir a) \<Longrightarrow>
        check_calls a (disk w) = ?first @ Makedirs (args_output_dir a) # [Access_W (args_output_dir a)]"
      by (simp add: check_calls_def destination_calls_makedirs)
    show ?thesis
    proof (cases "convert_from_path e (args_pdf_file a) (read_file (disk w) (args_pdf_file a))
               (args_dpi a) (args_fmt a) (args_poppler_path a)")
      case (Inl ex)
      show ?thesis
        using check_calls_no_save [of _ a "disk w"]
        by (auto simp: main_raster_raises [OF True Inl] raise_def)
    next
      case (Inr pages)
      from main_converted [OF True Inr] obtain st m lg pr cs where
        run: "main e a w =
         (st, w\<lparr>disk := created (args_output_dir a) (disk w) ++ m,
              logged := logged w @ (INFO, msg_converting (args_pdf_file a)) # lg
                @ (if st = Inr () then [(INFO, msg_complete)] else []),
              printed := printed w @ [args_pdf_file a, args_output_dir a, args_fmt a,
                                      str_int (args_dpi a)] @ pr,
              calls := calls w @ check_calls a (disk w)
                @ [Import_convert_from_path,
                   Convert_from_path (args_pdf_file a) (args_dpi a) (args_fmt a)
                     (args_poppler_path a)] @ cs\<rparr>)"
        and files: "\<forall>q n. m q = Some n \<longrightarrow> (\<exists>c. n = File c)
           \<and> q \<in> out_file_of (args_output_dir a) (args_fmt a) ` fst ` set (enumerate 1 pages)"
        by blast
      have "m (args_output_dir a) = None"
      proof (cases "m (args_output_dir a)")
        case (Some n)
        with files have "args_output_dir a
            \<in> out_file_of (args_output_dir a) (args_fmt a) ` fst ` set (enumerate 1 pages)"
          by blast
        then show ?thesis
          by (auto simp: out_file_of_not_dir [symmetric])
      qed simp
      with dir have end_dir: "isdir (disk (snd (main e a w))) (args_output_dir a)"
        by (simp add: run isdir_def map_add_def)
      let ?cs = "check_calls a (disk w)
                @ [Import_convert_from_path,
                   Convert_from_path (args_pdf_file a) (args_dpi a) (args_fmt a)
                     (args_poppler_path a)] @ cs"
      have "\<not> isdir (disk w) (args_output_dir a) \<longrightarrow>
          (\<exists>before after. ?cs = before @ Makedirs (args_output_dir a) # after
                    \<and> (\<forall>c \<in> set before. \<not> is_save c))"
      proof
        assume nd: "\<not> isdir (disk w) (args_output_dir a)"
        have "?cs = ?first @ Makedirs (args_output_dir a)
            # ([Access_W (args_output_dir a), Import_convert_from_path,
                   Convert_from_path (args_pdf_file a) (args_dpi a) (args_fmt a)
                     (args_poppler_path a)] @ cs)"
          by (simp add: chk [OF nd])
        with first show "\<exists>before after. ?cs = before @ Makedirs (args_output_dir a) # after
                    \<and> (\<forall>c \<in> set before. \<not> is_save c)"
          by blast
      qed
      with end_dir have "calls (snd (main e a w)) = calls w @ ?cs
        \<and> ((\<exists>c \<in> set ?cs. is_save c) \<longrightarrow>
            isdir (disk (snd (main e a w))) (args_output_dir a)
            \<and> (\<not> isdir (disk w) (args_output_dir a) \<longrightarrow>
                 (\<exists>before after. ?cs = before @ Makedirs (args_output_dir a) # after
                    \<and> (\<forall>c \<in> set before. \<not> is_save c))))"
        by (simp add: run)
      then show ?thesis by blast
    qed
  qed
next
  assume nr: "\<not> destination_ready e (args_output_dir a) (disk w)"
  then have fail: "\<not> preconditions_hold e a (disk w)"
    by (simp add: preconditions_hold_def)
  note f = main_failed [OF fail]
  from f show "exit_code (fst (main e a w)) = 1" by simp
  from f show "\<exists>msg. logged (snd (main e a w)) = logged w @ [(ERROR, msg)]" by blast
  from f show "\<exists>cs. calls (snd (main e a w)) = calls w @ cs \<and> (\<forall>c \<in> set cs. \<not> is_save c)"
    by blast
  from f show "\<forall>q. read_file (disk (snd (main e a w))) q = read_file (disk w) q" by blast
  assume "pdf2image_installed e \<and> toolchain_found e (args_poppler_path a) (disk w)
             \<and> source_readable e (args_pdf_file a) (disk w)"
  then have ok: "pdf2image_installed e" "toolchain_found e (args_poppler_path a) (disk w)"
    "source_readable e (args_pdf_file a) (disk w)"
    by simp_all
  show "logged (snd (main e a w)) =
                 logged w @ [(ERROR, case makedirs e (args_output_dir a) (disk w) of
                                       Inl err \<Rightarrow> msg_mkdir_failed (args_output_dir a) err
                                     | Inr d \<Rightarrow> msg_dir_unwritable (args_output_dir a))]"
  proof (cases "makedirs e (args_output_dir a) (disk w)")
    case (Inl err)
    show ?thesis
      by (simp add: main_mkdir_failed [OF ok Inl] Inl step_defs)
  next
    case (Inr d)
    with nr have "\<not> access_W e (args_output_dir a)"
      by (simp add: destination_ready_def)
    from main_dir_unwritable [OF ok Inr this] show ?thesis
      by (simp add: Inr step_defs)
  qed
qed

lemma sample_trace:
  "calls (snd (main sample_env sample_args sample_world)) =
     [Import_pdf2image, Which ''pdftoppm'', Isfile ''sample.pdf'', Access_R ''sample.pdf'',
      Isdir ''out/'', Makedirs ''out/'', Access_W ''out/'', Import_convert_from_path,
      Convert_from_path ''sample.pdf'' 150 ''png'' None,
      Save 10 ''out/page_1.png'' ''PNG'', Save 20 ''out/page_2.png'' ''PNG'',
      Save 30 ''out/page_3.png'' ''PNG'']"
  by code_simp

theorem output_directory_before_pages_witness:
  "\<not> isdir (disk sample_world) (args_output_dir sample_args)
   \<and> (\<exists>cs. calls (snd (main sample_env sample_args sample_world)) = calls sample_world @ cs
         \<and> (\<exists>c \<in> set cs. is_save c)
         \<and> isdir (disk (snd (main sample_env sample_args sample_world)))
               (args_output_dir sample_args)
         \<and> (\<exists>before after. cs = before @ Makedirs (args_output_dir sample_args) # after
                \<and> (\<forall>c \<in> set before. \<not> is_save c)))
   \<and> \<not> destination_ready unwritable_env (args_output_dir sample_args) (disk sample_world)
   \<and> pdf2image_installed unwritable_env
   \<and> toolchain_found unwritable_env (args_poppler_path sample_args) (disk sample_world)
   \<and> source_readable unwritable_env (args_pdf_file sample_args) (disk sample_world)
   \<and> exit_code (fst (main unwritable_env sample_args sample_world)) = 1
   \<and> logged (snd (main unwritable_env sample_args sample_world))
       = [(ERROR, msg_dir_unwritable ''out/'')]
   \<and> (\<forall>q. read_file (disk (snd (main unwritable_env sample_args sample_world))) q
          = read_file (disk sample_world) q)"
proof -
  have nd: "\<not> isdir (disk sample_world) (args_output_dir sample_args)"
    by (simp add: check_defs sample_defs)
  have w0: "calls sample_world = []" "logged sample_world = []"
    by (simp_all add: sample_world_def)
  from output_directory_before_pages [of sample_env sample_args sample_world]
  obtain cs where cs: "calls (snd (main sample_env sample_args sample_world)) = calls sample_world @ cs"
    and made: "(\<exists>c \<in> set cs. is_save c) \<longrightarrow>
            isdir (disk (snd (main sample_env sample_args sample_world))) (args_output_dir sample_args)
            \<and> (\<not> isdir (disk sample_world) (args_output_dir sample_args) \<longrightarrow>
                 (\<exists>before after. cs = before @ Makedirs (args_output_dir sample_args) # after
                    \<and> (\<forall>c \<in> set before. \<not> is_save c)))"
    by blast
  from cs have "Save 10 ''out/page_1.png'' ''PNG'' \<in> set cs"
    by (auto simp: sample_trace w0)
  then have saved: "\<exists>c \<in> set cs. is_save c"
    by (rule bexI [rotated]) simp
  have first: "\<exists>cs. calls (snd (main sample_env sample_args sample_world)) = calls sample_world @ cs
         \<and> (\<exists>c \<in> set cs. is_save c)
         \<and> isdir (disk (snd (main sample_env sample_args sample_world)))
               (args_output_dir sample_args)
         \<and> (\<exists>before after. cs = before @ Makedirs (args_output_dir sample_args) # after
                \<and> (\<forall>c \<in> set before. \<not> is_save c))"
    using cs made saved nd by blast
  have nr: "\<not> destination_ready unwritable_env (args_output_dir sample_args) (disk sample_world)"
    by (simp add: check_defs sample_defs)
  have ok: "pdf2image_installed unwritable_env"
    "toolchain_found unwritable_env (args_poppler_path sample_args) (disk sample_world)"
    "source_readable unwritable_env (args_pdf_file sample_args) (disk sample_world)"
    by (simp_all add: check_defs sample_defs)
  have mk: "makedirs unwritable_env (args_output_dir sample_args) (disk sample_world)
      = Inr ((disk sample_world)(''out/'' \<mapsto> Dir))"
    by (simp add: check_defs sample_defs)
  from output_directory_before_pages [of unwritable_env sample_args sample_world] nr ok
  have second: "exit_code (fst (main unwritable_env sample_args sample_world)) = 1
     \<and> logged (snd (main unwritable_env sample_args sample_world))
         = logged sample_world @ [(ERROR, case makedirs unwritable_env (args_output_dir sample_args)
                   (disk sample_world) of
                                       Inl err \<Rightarrow> msg_mkdir_failed (args_output_dir sample_args) err
                                     | Inr d \<Rightarrow> msg_dir_unwritable (args_output_dir sample_args))]
     \<and> (\<forall>q. read_file (disk (snd (main unwritable_env sample_args sample_world))) q
          = read_file (disk sample_world) q)"
    by blast
  then have "exit_code (fst (main unwritable_env sample_args sample_world)) = 1
     \<and> logged (snd (main unwritable_env sample_args sample_world))
         = [(ERROR, msg_dir_unwritable ''out/'')]
     \<and> (\<forall>q. read_file (disk (snd (main unwritable_env sample_args sample_world))) q
          = read_file (disk sample_world) q)"
    unfolding mk by (simp add: w0 sample_args_def)
  with nd first nr ok show ?thesis
    by blast
qed

section \<open>The order of the checks\<close>

text \<open>
  Claim C4. The four checks run in one order: the import of the library, the toolchain
  (a file test in the given directory, or the search path when none is given), the source
  (a file, then readable), the output directory (a directory or made, then writable).
  The first check that fails logs one error and ends the run with status 1; the trace
  then stops at the call of that check, so no later check and no rasterization call is
  made. When all four pass, the trace is the calls of the four checks in that order,
  followed by the rasterization call and then only by saves.
\<close>

theorem checks_run_in_order:
  "toolchain_call (Some dir) = (Isfile (os_path_join dir ''pdftoppm'') :: 'p call)
   \<and> toolchain_call None = (Which ''pdftoppm'' :: 'p call)
   \<and> (\<not> pdf2image_installed e \<longrightarrow>
        exit_code (fst (main e a w)) = 1
        \<and> logged (snd (main e a w)) = logged w @ [(ERROR, msg_pdf2image_missing)]
        \<and> calls (snd (main e a w)) = calls w @ [Import_pdf2image]
        \<and> disk (snd (main e a w)) = disk w)
   \<and> (pdf2image_installed e \<and> \<not> toolchain_found e (args_poppler_path a) (disk w) \<longrightarrow>
        exit_code (fst (main e a w)) = 1
        \<and> logged (snd (main e a w)) = logged w @ [(ERROR, msg_toolchain (args_poppler_path a))]
        \<and> calls (snd (main e a w)) =
            calls w @ [Import_pdf2image, toolchain_call (args_poppler_path a)]
        \<and> disk (snd (main e a w)) = disk w)
   \<and> (pdf2image_installed e \<and> toolchain_found e (args_poppler_path a) (disk w)
        \<and> \<not> source_readable e (args_pdf_file a) (disk w) \<longrightarrow>
        exit_code (fst (main e a w)) = 1
        \<and> logged (snd (main e a w)) =
            logged w @ [(ERROR, if isfile (disk w) (args_pdf_file a)
                                then msg_pdf_unreadable (args_pdf_file a)
                                else msg_pdf_missing (args_pdf_file a))]
        \<and> calls (snd (main e a w)) =
            calls w @ [Import_pdf2image, toolchain_call (args_poppler_path a),
                       Isfile (args_pdf_file a)]
              @ (if isfile (disk w) (args_pdf_file a) then [Access_R (args_pdf_file a)] else [])
        \<and> disk (snd (main e a w)) = disk w)
   \<and> (pdf2image_installed e \<and> toolchain_found e (args_poppler_path a) (disk w)
        \<and> source_readable e (args_pdf_file a) (disk w)
        \<and> \<not> destination_ready e (args_output_dir a) (disk w) \<longrightarrow>
        exit_code (fst (main e a w)) = 1
        \<and> logged (snd (main e a w)) =
            logged w @ [(ERROR, case makedirs e (args_output_dir a) (disk w) of
                                  Inl err \<Rightarrow> msg_mkdir_failed (args_output_dir a) err
                                | Inr d \<Rightarrow> msg_dir_unwritable (args_output_dir a))]
        \<and> calls (snd (main e a w)) =
            calls w @ [Import_pdf2image, toolchain_call (args_poppler_path a),
                       Isfile (args_pdf_file a), Access_R (args_pdf_file a),
                       Isdir (args_output_dir a)]
              @ (case makedirs e (args_output_dir a) (disk w) of
                   Inl err \<Rightarrow> [Makedirs (args_output_dir a)]
                 | Inr d \<Rightarrow> (if isdir (disk w) (args_output_dir a) then []
                             else [Makedirs (args_output_dir a)])
                            @ [Access_W (args_output_dir a)]))
   \<and> (preconditions_hold e a (disk w) \<longrightarrow>
        (\<exists>cs. calls (snd (main e a w)) =
            calls w @ [Import_pdf2image, toolchain_call (args_poppler_path a),
                       Isfile (args_pdf_file a), Access_R (args_pdf_file a),
                       Isdir (args_output_dir a)]
              @ (if isdir (disk w) (args_output_dir a) then [] else [Makedirs (args_output_dir a)])
              @ [Access_W (args_output_dir a), Import_convert_from_path,
                 Convert_from_path (args_pdf_file a) (args_dpi a) (args_fmt a)
                   (args_poppler_path a)]
              @ cs
          \<and> (\<forall>c \<in> set cs. is_save c)))"
proof (intro conjI impI)
  show "toolchain_call (Some dir) = (Isfile (os_path_join dir ''pdftoppm'') :: 'p call)"
    and "toolchain_call None = (Which ''pdftoppm'' :: 'p call)"
    by (simp_all add: toolchain_call_def pdftoppm_cmd_def)
next
  assume "\<not> pdf2image_installed e"
  note run = main_no_pdf2image [OF this]
  show "exit_code (fst (main e a w)) = 1"
    "logged (snd (main e a w)) = logged w @ [(ERROR, msg_pdf2image_missing)]"
    "calls (snd (main e a w)) = calls w @ [Import_pdf2image]"
    "disk (snd (main e a w)) = disk w"
    by (simp_all add: run step_defs)
next
  assume "pdf2image_installed e \<and> \<not> toolchain_found e (args_poppler_path a) (disk w)"
  then have "main e a w =
     sys_exit 1 (logging_error (msg_toolchain (args_poppler_path a))
       (called (toolchain_call (args_poppler_path a)) (called Import_pdf2image w)))"
    by (simp add: main_no_toolchain)
  then show "exit_code (fst (main e a w)) = 1"
    "logged (snd (main e a w)) = logged w @ [(ERROR, msg_toolchain (args_poppler_path a))]"
    "calls (snd (main e a w)) = calls w @ [Import_pdf2image, toolchain_call (args_poppler_path a)]"
    "disk (snd (main e a w)) = disk w"
    by (simp_all add: step_defs)
next
  assume h: "pdf2image_installed e \<and> toolchain_found e (args_poppler_path a) (disk w)
        \<and> \<not> source_readable e (args_pdf_file a) (disk w)"
  show "exit_code (fst (main e a w)) = 1"
    "logged (snd (main e a w)) =
            logged w @ [(ERROR, if isfile (disk w) (args_pdf_file a)
                                then msg_pdf_unreadable (args_pdf_file a)
                                else msg_pdf_missing (args_pdf_file a))]"
    "calls (snd (main e a w)) =
            calls w @ [Import_pdf2image, toolchain_call (args_poppler_path a),
                       Isfile (args_pdf_file a)]
              @ (if isfile (disk w) (args_pdf_file a) then [Access_R (args_pdf_file a)] else [])"
    "disk (snd (main e a w)) = disk w"
    using h
    by (cases "isfile (disk w) (args_pdf_file a)";
        simp add: source_readable_def main_pdf_missing main_pdf_unreadable step_defs)+
next
  assume h: "pdf2image_installed e \<and> toolchain_found e (args_poppler_path a) (disk w)
        \<and> source_readable e (args_pdf_file a) (disk w)
        \<and> \<not> destination_ready e (args_output_dir a) (disk w)"
  then have ok: "pdf2image_installed e" "toolchain_found e (args_poppler_path a) (disk w)"
    "source_readable e (args_pdf_file a) (disk w)"
    and nr: "\<not> destination_ready e (args_output_dir a) (disk w)"
    by simp_all
  show "exit_code (fst (main e a w)) = 1"
    "logged (snd (main e a w)) =
            logged w @ [(ERROR, case makedirs e (args_output_dir a) (disk w) of
                                  Inl err \<Rightarrow> msg_mkdir_failed (args_output_dir a) err
                                | Inr d \<Rightarrow> msg_dir_unwritable (args_output_dir a))]"
    "calls (snd (main e a w)) =
            calls w @ [Import_pdf2image, toolchain_call (args_poppler_path a),
                       Isfile (args_pdf_file a), Access_R (args_pdf_file a),
                       Isdir (args_output_dir a)]
              @ (case makedirs e (args_output_dir a) (disk w) of
                   Inl err \<Rightarrow> [Makedirs (args_output_dir a)]
                 | Inr d \<Rightarrow> (if isdir (disk w) (args_output_dir a) then []
                             else [Makedirs (args_output_dir a)])
                            @ [Access_W (args_output_dir a)])"
  proof -
    show "exit_code (fst (main e a w)) = 1"
      "logged (snd (main e a w)) =
            logged w @ [(ERROR, case makedirs e (args_output_dir a) (disk w) of
                                  Inl err \<Rightarrow> msg_mkdir_failed (args_output_dir a) err
                                | Inr d \<Rightarrow> msg_dir_unwritable (args_output_dir a))]"
      "calls (snd (main e a w)) =
            calls w @ [Import_pdf2image, toolchain_call (args_poppler_path a),
                       Isfile (args_pdf_file a), Access_R (args_pdf_file a),
                       Isdir (args_output_dir a)]
              @ (case makedirs e (args_output_dir a) (disk w) of
                   Inl err \<Rightarrow> [Makedirs (args_output_dir a)]
                 | Inr d \<Rightarrow> (if isdir (disk w) (args_output_dir a) then []
                             else [Makedirs (args_output_dir a)])
                            @ [Access_W (args_output_dir a)])"
    proof (atomize (full), cases "makedirs e (args_output_dir a) (disk w)")
      case (Inl err)
      show "exit_code (fst (main e a w)) = 1 \<and>
        logged (snd (main e a w)) =
            logged w @ [(ERROR, case makedirs e (args_output_dir a) (disk w) of
                                  Inl err \<Rightarrow> msg_mkdir_failed (args_output_dir a) err
                                | Inr d \<Rightarrow> msg_dir_unwritable (args_output_dir a))] \<and>
        calls (snd (main e a w)) =
            calls w @ [Import_pdf2image, toolchain_call (args_poppler_path a),
                       Isfile (args_pdf_file a), Access_R (args_pdf_file a),
                       Isdir (args_output_dir a)]
              @ (case makedirs e (args_output_dir a) (disk w) of
                   Inl err \<Rightarrow> [Makedirs (args_output_dir a)]
                 | Inr d \<Rightarrow> (if isdir (disk w) (args_output_dir a) then []
                             else [Makedirs (args_output_dir a)])
                            @ [Access_W (args_output_dir a)])"
        by (simp add: main_mkdir_failed [OF ok Inl] Inl step_defs)
    next
      case (Inr d)
      with nr have "\<not> access_W e (args_output_dir a)"
        by (simp add: destination_ready_def)
      from main_dir_unwritable [OF ok Inr this]
      show "exit_code (fst (main e a w)) = 1 \<and>
        logged (snd (main e a w)) =
            logged w @ [(ERROR, case makedirs e (args_output_dir a) (disk w) of
                                  Inl err \<Rightarrow> msg_mkdir_failed (args_output_dir a) err
                                | Inr d \<Rightarrow> msg_dir_unwritable (args_output_dir a))] \<and>
        calls (snd (main e a w)) =
            calls w @ [Import_pdf2image, toolchain_call (args_poppler_path a),
                       Isfile (args_pdf_file a), Access_R (args_pdf_file a),
                       Isdir (args_output_dir a)]
              @ (case makedirs e (args_output_dir a) (disk w) of
                   Inl err \<Rightarrow> [Makedirs (args_output_dir a)]
                 | Inr d \<Rightarrow> (if isdir (disk w) (args_output_dir a) then []
                             else [Makedirs (args_output_dir a)])
                            @ [Access_W (args_output_dir a)])"
        by (simp add: Inr step_defs check_calls_def source_calls_def destination_calls_def)
    qed
  qed
next
  assume pre: "preconditions_hold e a (disk w)"
  have chk: "check_calls a (disk w) @ [Import_convert_from_path,
                 Convert_from_path (args_pdf_file a) (args_dpi a) (args_fmt a)
                   (args_poppler_path a)] =
      [Import_pdf2image, toolchain_call (args_poppler_path a),
                       Isfile (args_pdf_file a), Access_R (args_pdf_file a),
                       Isdir (args_output_dir a)]
              @ (if isdir (disk w) (args_output_dir a) then [] else [Makedirs (args_output_dir a)])
              @ [Access_W (args_output_dir a), Import_convert_from_path,
                 Convert_from_path (args_pdf_file a) (args_dpi a) (args_fmt a)
                   (args_poppler_path a)]"
    by (simp add: check_calls_def source_calls_def destination_calls_def)
  show "\<exists>cs. calls (snd (main e a w)) =
            calls w @ [Import_pdf2image, toolchain_call (args_poppler_path a),
                       Isfile (args_pdf_file a), Access_R (args_pdf_file a),
                       Isdir (args_output_dir a)]
              @ (if isdir (disk w) (args_output_dir a) then [] else [Makedirs (args_output_dir a)])
              @ [Access_W (args_output_dir a), Import_convert_from_path,
                 Convert_from_path (args_pdf_file a) (args_dpi a) (args_fmt a)
                   (args_poppler_path a)]
              @ cs
          \<and> (\<forall>c \<in> set cs. is_save c)"
  proof (cases "convert_from_path e (args_pdf_file a) (read_file (disk w) (args_pdf_file a))
               (args_dpi a) (args_fmt a) (args_poppler_path a)")
    case (Inl ex)
    have "calls (snd (main e a w)) = calls w @ (check_calls a (disk w) @ [Import_convert_from_path,
                 Convert_from_path (args_pdf_file a) (args_dpi a) (args_fmt a)
                   (args_poppler_path a)]) @ []"
      by (simp add: main_raster_raises [OF pre Inl] raise_def)
    then show ?thesis
      unfolding chk by (intro exI [of _ "[]"]) simp
  next
    case (Inr pages)
    from main_converted [OF pre Inr] obtain st m lg pr cs where
      run: "main e a w =
         (st, w\<lparr>disk := created (args_output_dir a) (disk w) ++ m,
              logged := logged w @ (INFO, msg_converting (args_pdf_file a)) # lg
                @ (if st = Inr () then [(INFO, msg_complete)] else []),
              printed := printed w @ [args_pdf_file a, args_output_dir a, args_fmt a,
                                      str_int (args_dpi a)] @ pr,
              calls := calls w @ check_calls a (disk w)
                @ [Import_convert_from_path,
                   Convert_from_path (args_pdf_file a) (args_dpi a) (args_fmt a)
                     (args_poppler_path a)] @ cs\<rparr>)"
      and saves: "\<forall>c\<in>set cs. is_save c"
      by blast
    have "calls (snd (main e a w)) = calls w @ (check_calls a (disk w) @ [Import_convert_from_path,
                 Convert_from_path (args_pdf_file a) (args_dpi a) (args_fmt a)
                   (args_poppler_path a)]) @ cs"
      by (simp add: run)
    with saves show ?thesis
      unfolding chk by (intro exI [of _ cs]) simp
  qed
qed

theorem checks_run_in_order_witness:
  "\<not> pdf2image_installed no_library_env
   \<and> exit_code (fst (main no_library_env sample_args sample_world)) = 1
   \<and> calls (snd (main no_library_env sample_args sample_world)) = [Import_pdf2image]
   \<and> pdf2image_installed no_toolchain_env
   \<and> \<not> toolchain_found no_toolchain_env (args_poppler_path sample_args) (disk sample_world)
   \<and> exit_code (fst (main no_toolchain_env sample_args sample_world)) = 1
   \<and> calls (snd (main no_toolchain_env sample_args sample_world))
       = [Import_pdf2image, Which ''pdftoppm'']
   \<and> toolchain_found sample_env (args_poppler_path sample_args)
        (disk (sample_world\<lparr>disk := Map.empty\<rparr>))
   \<and> \<not> source_readable sample_env (args_pdf_file sample_args)
          (disk (sample_world\<lparr>disk := Map.empty\<rparr>))
   \<and> exit_code (fst (main sample_env sample_args (sample_world\<lparr>disk := Map.empty\<rparr>))) = 1
   \<and> calls (snd (main sample_env sample_args (sample_world\<lparr>disk := Map.empty\<rparr>)))
       = [Import_pdf2image, Which ''pdftoppm'', Isfile ''sample.pdf'']
   \<and> source_readable unwritable_env (args_pdf_file sample_args) (disk sample_world)
   \<and> \<not> destination_ready unwritable_env (args_output_dir sample_args) (disk sample_world)
   \<and> exit_code (fst (main unwritable_env sample_args sample_world)) = 1
   \<and> calls (snd (main unwritable_env sample_args sample_world))
       = [Import_pdf2image, Which ''pdftoppm'', Isfile ''sample.pdf'', Access_R ''sample.pdf'',
          Isdir ''out/'', Makedirs ''out/'', Access_W ''out/'']
   \<and> preconditions_hold sample_env sample_args (disk sample_world)
   \<and> (\<exists>cs. calls (snd (main sample_env sample_args sample_world))
         = [Import_pdf2image, Which ''pdftoppm'', Isfile ''sample.pdf'', Access_R ''sample.pdf'',
            Isdir ''out/'', Makedirs ''out/'', Access_W ''out/'', Import_convert_from_path,
            Convert_from_path ''sample.pdf'' 150 ''png'' None] @ cs
         \<and> (\<forall>c \<in> set cs. is_save c))"
proof -
  let ?empty = "sample_world\<lparr>disk := Map.empty\<rparr>"
  have w0: "calls sample_world = []" "calls ?empty = []"
    by (simp_all add: sample_world_def)
  have sel: "args_pdf_file sample_args = ''sample.pdf''" "args_dpi sample_args = 150"
    "args_fmt sample_args = ''png''" "args_poppler_path sample_args = None"
    "args_output_dir sample_args = ''out/''"
    by (simp_all add: sample_defs)
  have tc: "toolchain_call None = (Which ''pdftoppm'' :: nat call)"
    by (simp add: toolchain_call_def pdftoppm_cmd_def)
  have h1: "\<not> pdf2image_installed no_library_env"
    by (simp add: sample_defs)
  from checks_run_in_order [where e = no_library_env and a = sample_args and w = sample_world] h1
  have r1: "exit_code (fst (main no_library_env sample_args sample_world)) = 1
     \<and> calls (snd (main no_library_env sample_args sample_world))
         = calls sample_world @ [Import_pdf2image]"
    by blast
  have h2: "pdf2image_installed no_toolchain_env"
    "\<not> toolchain_found no_toolchain_env (args_poppler_path sample_args) (disk sample_world)"
    by (simp_all add: check_defs sample_defs)
  from checks_run_in_order [where e = no_toolchain_env and a = sample_args and w = sample_world] h2
  have r2: "exit_code (fst (main no_toolchain_env sample_args sample_world)) = 1
     \<and> calls (snd (main no_toolchain_env sample_args sample_world))
         = calls sample_world @ [Import_pdf2image, toolchain_call (args_poppler_path sample_args)]"
    by blast
  have h3: "pdf2image_installed sample_env"
    "toolchain_found sample_env (args_poppler_path sample_args) (disk ?empty)"
    "\<not> source_readable sample_env (args_pdf_file sample_args) (disk ?empty)"
    "\<not> isfile (disk ?empty) (args_pdf_file sample_args)"
    by (simp_all add: check_defs sample_defs)
  from checks_run_in_order [where e = sample_env and a = sample_args and w = ?empty] h3(1-3)
  have "exit_code (fst (main sample_env sample_args ?empty)) = 1
     \<and> calls (snd (main sample_env sample_args ?empty))
         = calls ?empty @ [Import_pdf2image, toolchain_call (args_poppler_path sample_args),
                       Isfile (args_pdf_file sample_args)]
              @ (if isfile (disk ?empty) (args_pdf_file sample_args)
                 then [Access_R (args_pdf_file sample_args)] else [])"
    by blast
  with h3(4) have r3: "exit_code (fst (main sample_env sample_args ?empty)) = 1
     \<and> calls (snd (main sample_env sample_args ?empty))
         = [Import_pdf2image, toolchain_call (args_poppler_path sample_args),
                       Isfile (args_pdf_file sample_args)]"
    by (simp add: w0)
  have h4: "pdf2image_installed unwritable_env"
    "toolchain_found unwritable_env (args_poppler_path sample_args) (disk sample_world)"
    "source_readable unwritable_env (args_pdf_file sample_args) (disk sample_world)"
    "\<not> destination_ready unwritable_env (args_output_dir sample_args) (disk sample_world)"
    by (simp_all add: check_defs sample_defs)
  have mk: "makedirs unwritable_env (args_output_dir sample_args) (disk sample_world)
      = Inr ((disk sample_world)(''out/'' \<mapsto> Dir))"
    "\<not> isdir (disk sample_world) (args_output_dir sample_args)"
    by (simp_all add: check_defs sample_defs)
  from checks_run_in_order [where e = unwritable_env and a = sample_args and w = sample_world] h4
  have "exit_code (fst (main unwritable_env sample_args sample_world)) = 1
     \<and> calls (snd (main unwritable_env sample_args sample_world)) =
            calls sample_world @ [Import_pdf2image, toolchain_call (args_poppler_path sample_args),
                       Isfile (args_pdf_file sample_args), Access_R (args_pdf_file sample_args),
                       Isdir (args_output_dir sample_args)]
              @ (case makedirs unwritable_env (args_output_dir sample_args) (disk sample_world) of
                   Inl err \<Rightarrow> [Makedirs (args_output_dir sample_args)]
                 | Inr d \<Rightarrow> (if isdir (disk sample_world) (args_output_dir sample_args) then []
                             else [Makedirs (args_output_dir sample_args)])
                            @ [Access_W (args_output_dir sample_args)])"
    by blast
  then have r4: "exit_code (fst (main unwritable_env sample_args sample_world)) = 1
     \<and> calls (snd (main unwritable_env sample_args sample_world)) =
            [Import_pdf2image, toolchain_call (args_poppler_path sample_args),
                       Isfile (args_pdf_file sample_args), Access_R (args_pdf_file sample_args),
                       Isdir (args_output_dir sample_args), Makedirs (args_output_dir sample_args),
                       Access_W (args_output_dir sample_args)]"
    unfolding mk(1) using mk(2) by (simp add: w0)
  from checks_run_in_order [where e = sample_env and a = sample_args and w = sample_world]
    sample_preconditions
  have "\<exists>cs. calls (snd (main sample_env sample_args sample_world)) =
            calls sample_world @ [Import_pdf2image, toolchain_call (args_poppler_path sample_args),
                       Isfile (args_pdf_file sample_args), Access_R (args_pdf_file sample_args),
                       Isdir (args_output_dir sample_args)]
              @ (if isdir (disk sample_world) (args_output_dir sample_args) then []
                 else [Makedirs (args_output_dir sample_args)])
              @ [Access_W (args_output_dir sample_args), Import_convert_from_path,
                 Convert_from_path (args_pdf_file sample_args) (args_dpi sample_args)
                   (args_fmt sample_args) (args_poppler_path sample_args)]
              @ cs
          \<and> (\<forall>c \<in> set cs. is_save c)"
    by blast
  then have r5: "\<exists>cs. calls (snd (main sample_env sample_args sample_world))
         = [Import_pdf2image, Which ''pdftoppm'', Isfile ''sample.pdf'', Access_R ''sample.pdf'',
            Isdir ''out/'', Makedirs ''out/'', Access_W ''out/'', Import_convert_from_path,
            Convert_from_path ''sample.pdf'' 150 ''png'' None] @ cs
         \<and> (\<forall>c \<in> set cs. is_save c)"
    using mk(2) by (simp add: w0 sel tc)
  from r1 r2 r3 r4 r5 h1 h2 h3 h4 sample_preconditions show ?thesis
    by (simp add: w0 sel tc)
qed

section \<open>The names of the page files\<close>

lemma digit_char_inj: "a < 10 \<Longrightarrow> b < 10 \<Longrightarrow> digit_char a = digit_char b \<Longrightarrow> a = b"
proof -
  assume a: "a < 10" and b: "b < 10" and eq: "digit_char a = digit_char b"
  from eq have "(of_char (char_of (48 + a)) :: nat) = of_char (char_of (48 + b))"
    by (simp add: digit_char_def)
  with a b show "a = b" by simp
qed

lemma digit_char_0: "digit_char 0 = CHR ''0''"
  by (simp add: digit_char_def char_of_eq_iff)

lemma str_nat_nonempty: "str_nat n \<noteq> []"
  by (subst str_nat.simps) simp

lemma str_nat_inj: "str_nat n = str_nat m \<Longrightarrow> n = m"
proof (induction n arbitrary: m rule: str_nat.induct)
  case (1 n)
  show ?case
  proof (cases "n < 10")
    case small: True
    show ?thesis
    proof (cases "m < 10")
      case True
      with small "1.prems" show ?thesis
        by (simp add: str_nat.simps [of n] str_nat.simps [of m] digit_char_inj)
    next
      case False
      with small "1.prems" str_nat_nonempty [of "m div 10"] show ?thesis
        by (subst (asm) str_nat.simps, subst (asm) (2) str_nat.simps) simp
    qed
  next
    case large: False
    show ?thesis
    proof (cases "m < 10")
      case True
      with large "1.prems" str_nat_nonempty [of "n div 10"] show ?thesis
        by (subst (asm) str_nat.simps, subst (asm) (2) str_nat.simps) simp
    next
      case False
      from large False "1.prems"
      have "str_nat (n div 10) @ [digit_char (n mod 10)]
          = str_nat (m div 10) @ [digit_char (m mod 10)]"
        by (subst (asm) str_nat.simps, subst (asm) (2) str_nat.simps) simp
      then have "str_nat (n div 10) = str_nat (m div 10)"
        and "digit_char (n mod 10) = digit_char (m mod 10)"
        by simp_all
      with "1.IH" [OF large] have "n div 10 = m div 10" and "n mod 10 = m mod 10"
        by (simp_all add: digit_char_inj)
      then show ?thesis
        by (metis div_mult_mod_eq)
    qed
  qed
qed

lemma str_nat_no_leading_zero: "0 < n \<Longrightarrow> hd (str_nat n) \<noteq> CHR ''0''"
proof (induction n rule: str_nat.induct)
  case (1 n)
  show ?case
  proof (cases "n < 10")
    case True
    with "1.prems" digit_char_inj [of n 0] show ?thesis
      by (subst str_nat.simps) (auto simp: digit_char_0 [symmetric])
  next
    case False
    then have "0 < n div 10" by simp
    with "1.IH" [OF False] False str_nat_nonempty [of "n div 10"] show ?thesis
      by (subst str_nat.simps) simp
  qed
qed

lemma os_path_join_inj:
  "b \<noteq> [] \<Longrightarrow> hd b \<noteq> CHR ''/'' \<Longrightarrow> c \<noteq> [] \<Longrightarrow> hd c \<noteq> CHR ''/'' \<Longrightarrow>
   os_path_join a b = os_path_join a c \<Longrightarrow> b = c"
  by (simp add: os_path_join_def split: if_splits)

lemma out_file_of_inj: "out_file_of out fmt i = out_file_of out fmt j \<Longrightarrow> i = j"
proof -
  assume "out_file_of out fmt i = out_file_of out fmt j"
  then have "''page_'' @ str_nat i @ ''.'' @ fmt = ''page_'' @ str_nat j @ ''.'' @ fmt"
    unfolding out_file_of_def by (rule os_path_join_inj [rotated -1]) simp_all
  then have "str_nat i = str_nat j" by simp
  then show "i = j" by (rule str_nat_inj)
qed

lemma out_files_distinct: "distinct (map (out_file_of out fmt) [m..<n])"
  by (simp add: distinct_map inj_on_def) (blast dest: out_file_of_inj)

section \<open>A run that saves every page\<close>

lemma for_pages_saved:
  assumes fmt: "lower fmt \<noteq> ''jpeg''"
  shows "\<forall>(i, p) \<in> set xs. save e p (out_file_of out fmt i) (upper fmt) = Inr (bytes i) \<Longrightarrow>
    for_pages e out fmt xs w =
      return (w\<lparr>disk := fold (\<lambda>(i, p) d. d(out_file_of out fmt i \<mapsto> File (bytes i))) xs (disk w),
                logged := logged w @ map (\<lambda>(i, p). (INFO, msg_saved i (out_file_of out fmt i))) xs,
                printed := printed w @ map (\<lambda>(i, p). out_file_of out fmt i) xs,
                calls := calls w @ map (\<lambda>(i, p). Save p (out_file_of out fmt i) (upper fmt)) xs\<rparr>)"
proof (induction xs arbitrary: w)
  case Nil
  show ?case by (simp add: return_def)
next
  case (Cons x xs)
  obtain i p where x: "x = (i, p)" by (cases x)
  from Cons.prems have now: "save e p (out_file_of out fmt i) (upper fmt) = Inr (bytes i)"
    and later: "\<forall>(i, p) \<in> set xs. save e p (out_file_of out fmt i) (upper fmt) = Inr (bytes i)"
    by (simp_all add: x)
  let ?q = "out_file_of out fmt i"
  let ?w = "w\<lparr>disk := (disk w)(?q \<mapsto> File (bytes i)),
               logged := logged w @ [(INFO, msg_saved i ?q)],
               printed := printed w @ [?q],
               calls := calls w @ [Save p ?q (upper fmt)]\<rparr>"
  have "for_pages e out fmt ((i, p) # xs) w = for_pages e out fmt xs ?w"
    by (simp add: loop_body_saved [OF fmt now]) (simp add: return_def and_then_def)
  also note Cons.IH [OF later, of ?w]
  finally show ?case
    unfolding x return_def
    by (simp del: fun_upd_apply)
qed

lemma fold_writes_other:
  "q \<notin> f ` fst ` set xs \<Longrightarrow>
   fold (\<lambda>(i, p) d. d(f i \<mapsto> File (bytes i))) xs d q = d q"
  by (induction xs arbitrary: d) (auto split: prod.splits)

lemma fold_writes_found:
  "inj f \<Longrightarrow> distinct (map fst xs) \<Longrightarrow> (i, p) \<in> set xs \<Longrightarrow>
   fold (\<lambda>(i, p) d. d(f i \<mapsto> File (bytes i))) xs d (f i) = Some (File (bytes i))"
proof (induction xs arbitrary: d)
  case Nil
  then show ?case by simp
next
  case (Cons x xs)
  obtain j r where x: "x = (j, r)" by (cases x)
  show ?case
  proof (cases "(i, p) \<in> set xs")
    case True
    with Cons show ?thesis by (simp add: x)
  next
    case False
    with Cons.prems have ij: "i = j" and "j \<notin> fst ` set xs"
      by (auto simp: x)
    with Cons.prems(1) have "f j \<notin> f ` fst ` set xs"
      by (auto simp: inj_def)
    from fold_writes_other [OF this, of bytes "d(f j \<mapsto> File (bytes j))"]
    have "fold (\<lambda>(i, p) d. d(f i \<mapsto> File (bytes i))) xs (d(f j \<mapsto> File (bytes j))) (f j)
        = Some (File (bytes j))"
      by simp
    then show ?thesis
      by (simp add: x ij del: fun_upd_apply)
  qed
qed

lemma inj_out_file_of: "inj (out_file_of out fmt)"
  by (rule injI) (rule out_file_of_inj)

lemma enumerate_indices: "fst ` set (enumerate 1 pages) = {1..length pages}"
proof -
  have "set (map fst (enumerate 1 pages)) = {1..length pages}"
    by (simp only: map_fst_enumerate set_upt) auto
  then show ?thesis
    by (simp only: set_map)
qed

text \<open>
  Claim C2 says that every run with a format that is not rejected, on a source that
  rasterizes to \<open>N\<close> pages, writes \<open>N\<close> files and exits with status 0. It does not when
  a save fails: in the sample run (format \<open>png\<close>, three pages, all four checks passing)
  with an encoder that raises on the second page, the run ends on the uncaught exception
  with status 1 after two calls to \<open>page.save\<close>, and the disk holds \<open>page_1.png\<close> only.
\<close>

theorem failed_save_leaves_pages_unwritten:
  "preconditions_hold failing_save_env sample_args (disk sample_world)
   \<and> lower (args_fmt sample_args) \<noteq> ''jpeg''
   \<and> convert_from_path failing_save_env (args_pdf_file sample_args)
        (read_file (disk sample_world) (args_pdf_file sample_args)) (args_dpi sample_args)
        (args_fmt sample_args) (args_poppler_path sample_args) = Inr [10, 20, 30]
   \<and> fst (main failing_save_env sample_args sample_world)
        = Inl (Raise (LibraryError ''cannot write mode RGBA''))
   \<and> exit_code (fst (main failing_save_env sample_args sample_world)) = 1
   \<and> disk (snd (main failing_save_env sample_args sample_world)) ''out/page_1.png''
        = Some (File ''PNG:10'')
   \<and> disk (snd (main failing_save_env sample_args sample_world)) ''out/page_2.png'' = None
   \<and> disk (snd (main failing_save_env sample_args sample_world)) ''out/page_3.png'' = None
   \<and> filter is_save (calls (snd (main failing_save_env sample_args sample_world)))
        = [Save 10 ''out/page_1.png'' ''PNG'', Save 20 ''out/page_2.png'' ''PNG'']
   \<and> last (logged (snd (main failing_save_env sample_args sample_world)))
        = (INFO, msg_saved 1 ''out/page_1.png'')"
  by code_simp

text \<open>
  Claim C2, amended. Take a run in which the four checks pass, the format is not the rejected one,
  the rasterization call returns \<open>N\<close> pages and every save of a page succeeds. Then
  \<open>main\<close> returns, so the process exits with status 0, and the last line logged is
  \<open>Conversion complete.\<close>. After the rasterization call the run makes exactly \<open>N\<close>
  calls, the saves of page 1 to page \<open>N\<close> in this order, page \<open>i\<close> to the path
  \<open>page_i.fmt\<close> joined to the output directory, with \<open>i\<close> in decimal without a leading
  zero. These \<open>N\<close> paths differ from one another; at the end each holds the bytes its
  save wrote, and every other path of the disk is as the checks left it.
\<close>

theorem every_page_saved:
  assumes pre: "preconditions_hold e a (disk w)"
    and fmt: "lower (args_fmt a) \<noteq> ''jpeg''"
    and pages: "convert_from_path e (args_pdf_file a) (read_file (disk w) (args_pdf_file a))
               (args_dpi a) (args_fmt a) (args_poppler_path a) = Inr pages"
    and saves: "\<forall>(i, p) \<in> set (enumerate 1 pages).
       save e p (out_file_of (args_output_dir a) (args_fmt a) i) (upper (args_fmt a)) = Inr (bytes i)"
  shows "fst (main e a w) = Inr ()
    \<and> exit_code (fst (main e a w)) = 0
    \<and> calls (snd (main e a w)) =
        calls w @ check_calls a (disk w)
          @ [Import_convert_from_path,
             Convert_from_path (args_pdf_file a) (args_dpi a) (args_fmt a) (args_poppler_path a)]
          @ map (\<lambda>(i, p). Save p (out_file_of (args_output_dir a) (args_fmt a) i)
                            (upper (args_fmt a)))
              (enumerate 1 pages)
    \<and> map fst (enumerate 1 pages) = [1..<Suc (length pages)]
    \<and> distinct (map (out_file_of (args_output_dir a) (args_fmt a)) [1..<Suc (length pages)])
    \<and> (\<forall>i \<in> {1..length pages}.
          disk (snd (main e a w)) (out_file_of (args_output_dir a) (args_fmt a) i)
            = Some (File (bytes i))
          \<and> out_file_of (args_output_dir a) (args_fmt a) i
            = os_path_join (args_output_dir a) (''page_'' @ str_nat i @ ''.'' @ args_fmt a)
          \<and> hd (str_nat i) \<noteq> CHR ''0'')
    \<and> (\<forall>q. q \<notin> out_file_of (args_output_dir a) (args_fmt a) ` {1..length pages} \<longrightarrow>
          disk (snd (main e a w)) q = created (args_output_dir a) (disk w) q)
    \<and> logged (snd (main e a w)) =
        logged w @ (INFO, msg_converting (args_pdf_file a))
          # map (\<lambda>(i, p). (INFO, msg_saved i (out_file_of (args_output_dir a) (args_fmt a) i)))
              (enumerate 1 pages)
          @ [(INFO, msg_complete)]"
proof -
  let ?out = "out_file_of (args_output_dir a) (args_fmt a)"
  let ?store = "\<lambda>(i, p) d. d(?out i \<mapsto> File (bytes i))"
  note run = main_pages [OF pre pages] for_pages_saved [OF fmt saves]
  have status: "fst (main e a w) = Inr ()"
    unfolding run by (simp add: step_defs)
  have trace: "calls (snd (main e a w)) =
        calls w @ check_calls a (disk w)
          @ [Import_convert_from_path,
             Convert_from_path (args_pdf_file a) (args_dpi a) (args_fmt a) (args_poppler_path a)]
          @ map (\<lambda>(i, p). Save p (?out i) (upper (args_fmt a))) (enumerate 1 pages)"
    unfolding run by (simp add: step_defs)
  have log: "logged (snd (main e a w)) =
        logged w @ (INFO, msg_converting (args_pdf_file a))
          # map (\<lambda>(i, p). (INFO, msg_saved i (?out i))) (enumerate 1 pages)
          @ [(INFO, msg_complete)]"
    unfolding run by (simp add: step_defs)
  have disk: "disk (snd (main e a w)) =
      fold ?store (enumerate 1 pages) (created (args_output_dir a) (disk w))"
    unfolding run by (simp add: step_defs del: fun_upd_apply)
  have written: "disk (snd (main e a w)) (?out i) = Some (File (bytes i))"
    if "i \<in> {1..length pages}" for i
  proof -
    from that have "i \<in> fst ` set (enumerate 1 pages)"
      by (simp only: enumerate_indices)
    then obtain p where "(i, p) \<in> set (enumerate 1 pages)"
      by auto
    then show ?thesis
      unfolding disk by (intro fold_writes_found inj_out_file_of) simp_all
  qed
  have other: "disk (snd (main e a w)) q = created (args_output_dir a) (disk w) q"
    if "q \<notin> ?out ` {1..length pages}" for q
  proof -
    have "q \<notin> ?out ` fst ` set (enumerate 1 pages)"
      unfolding enumerate_indices by (rule that)
    then show ?thesis
      unfolding disk by (rule fold_writes_other)
  qed
  have names: "?out i = os_path_join (args_output_dir a) (''page_'' @ str_nat i @ ''.'' @ args_fmt a)
      \<and> hd (str_nat i) \<noteq> CHR ''0''"
    if "i \<in> {1..length pages}" for i
    using that by (simp add: out_file_of_def str_nat_no_leading_zero)
  have idx: "map fst (enumerate 1 pages) = [1..<Suc (length pages)]"
    by (simp only: map_fst_enumerate plus_1_eq_Suc)
  have code: "exit_code (fst (main e a w)) = 0"
    by (simp add: status)
  have apart: "distinct (map ?out [1..<Suc (length pages)])"
    by (rule out_files_distinct)
  have all_written: "\<forall>i \<in> {1..length pages}.
          disk (snd (main e a w)) (?out i) = Some (File (bytes i))
          \<and> ?out i
            = os_path_join (args_output_dir a) (''page_'' @ str_nat i @ ''.'' @ args_fmt a)
          \<and> hd (str_nat i) \<noteq> CHR ''0''"
    using written names by blast
  have all_other: "\<forall>q. q \<notin> ?out ` {1..length pages} \<longrightarrow>
          disk (snd (main e a w)) q = created (args_output_dir a) (disk w) q"
    using other by blast
  from status code trace idx apart all_written all_other log
  show ?thesis
    by - (intro conjI, assumption+)
qed

lemma sample_names:
  "out_file_of ''out/'' ''png'' 1 = ''out/page_1.png''"
  "out_file_of ''out/'' ''png'' 2 = ''out/page_2.png''"
  "out_file_of ''out/'' ''png'' 3 = ''out/page_3.png''"
  "upper ''png'' = ''PNG''"
  "str_nat 10 = ''10''" "str_nat 20 = ''20''" "str_nat 30 = ''30''"
  by code_simp+

theorem every_page_saved_witness:
  "preconditions_hold sample_env sample_args (disk sample_world)
   \<and> lower (args_fmt sample_args) \<noteq> ''jpeg''
   \<and> convert_from_path sample_env (args_pdf_file sample_args)
        (read_file (disk sample_world) (args_pdf_file sample_args)) (args_dpi sample_args)
        (args_fmt sample_args) (args_poppler_path sample_args) = Inr [10, 20, 30]
   \<and> save sample_env 10 (out_file_of (args_output_dir sample_args) (args_fmt sample_args) 1)
         (upper (args_fmt sample_args)) = Inr ''PNG:10''
   \<and> save sample_env 20 (out_file_of (args_output_dir sample_args) (args_fmt sample_args) 2)
         (upper (args_fmt sample_args)) = Inr ''PNG:20''
   \<and> save sample_env 30 (out_file_of (args_output_dir sample_args) (args_fmt sample_args) 3)
         (upper (args_fmt sample_args)) = Inr ''PNG:30''
   \<and> exit_code (fst (main sample_env sample_args sample_world)) = 0
   \<and> disk (snd (main sample_env sample_args sample_world)) ''out/page_1.png''
       = Some (File ''PNG:10'')
   \<and> disk (snd (main sample_env sample_args sample_world)) ''out/page_2.png''
       = Some (File ''PNG:20'')
   \<and> disk (snd (main sample_env sample_args sample_world)) ''out/page_3.png''
       = Some (File ''PNG:30'')
   \<and> last (logged (snd (main sample_env sample_args sample_world))) = (INFO, msg_complete)"
proof -
  have sel: "args_pdf_file sample_args = ''sample.pdf''" "args_dpi sample_args = 150"
    "args_fmt sample_args = ''png''" "args_poppler_path sample_args = None"
    "args_output_dir sample_args = ''out/''"
    by (simp_all add: sample_defs)
  have fmt: "lower (args_fmt sample_args) \<noteq> ''jpeg''"
    unfolding sel by code_simp
  have pages: "convert_from_path sample_env (args_pdf_file sample_args)
        (read_file (disk sample_world) (args_pdf_file sample_args)) (args_dpi sample_args)
        (args_fmt sample_args) (args_poppler_path sample_args) = Inr [10, 20, 30]"
    by (simp add: sample_defs read_file_def)
  have saves: "\<forall>(i, p) \<in> set (enumerate 1 [10, 20, 30]).
         save sample_env p (out_file_of (args_output_dir sample_args) (args_fmt sample_args) i)
           (upper (args_fmt sample_args)) = Inr (''PNG:'' @ str_nat (10 * i))"
    unfolding sel by (simp add: sample_env_def sample_names)
  note run = every_page_saved [OF sample_preconditions fmt pages saves]
  from run have code: "exit_code (fst (main sample_env sample_args sample_world)) = 0"
    by (rule conjunct2 [THEN conjunct1])
  from run have written: "\<forall>i \<in> {1..length [10, 20, 30 :: nat]}.
      disk (snd (main sample_env sample_args sample_world))
        (out_file_of (args_output_dir sample_args) (args_fmt sample_args) i)
        = Some (File (''PNG:'' @ str_nat (10 * i)))"
    by blast
  from run have log: "logged (snd (main sample_env sample_args sample_world)) =
        logged sample_world @ (INFO, msg_converting (args_pdf_file sample_args))
          # map (\<lambda>(i, p). (INFO, msg_saved i
                  (out_file_of (args_output_dir sample_args) (args_fmt sample_args) i)))
              (enumerate 1 [10, 20, 30 :: nat])
          @ [(INFO, msg_complete)]"
    by blast
  have
    "disk (snd (main sample_env sample_args sample_world)) (out_file_of ''out/'' ''png'' 1)
       = Some (File (''PNG:'' @ str_nat 10))"
    "disk (snd (main sample_env sample_args sample_world)) (out_file_of ''out/'' ''png'' 2)
       = Some (File (''PNG:'' @ str_nat 20))"
    "disk (snd (main sample_env sample_args sample_world)) (out_file_of ''out/'' ''png'' 3)
       = Some (File (''PNG:'' @ str_nat 30))"
    using bspec [OF written [unfolded sel], of 1] bspec [OF written [unfolded sel], of 2]
      bspec [OF written [unfolded sel], of 3]
    by simp_all
  then have files:
    "disk (snd (main sample_env sample_args sample_world)) ''out/page_1.png''
       = Some (File ''PNG:10'')"
    "disk (snd (main sample_env sample_args sample_world)) ''out/page_2.png''
       = Some (File ''PNG:20'')"
    "disk (snd (main sample_env sample_args sample_world)) ''out/page_3.png''
       = Some (File ''PNG:30'')"
    unfolding sample_names by simp_all
  have each:
    "save sample_env 10 (out_file_of (args_output_dir sample_args) (args_fmt sample_args) 1)
         (upper (args_fmt sample_args)) = Inr ''PNG:10''"
    "save sample_env 20 (out_file_of (args_output_dir sample_args) (args_fmt sample_args) 2)
         (upper (args_fmt sample_args)) = Inr ''PNG:20''"
    "save sample_env 30 (out_file_of (args_output_dir sample_args) (args_fmt sample_args) 3)
         (upper (args_fmt sample_args)) = Inr ''PNG:30''"
    unfolding sel by (simp_all add: sample_env_def sample_names)
  have "last (logged (snd (main sample_env sample_args sample_world))) = (INFO, msg_complete)"
    unfolding log by simp
  with sample_preconditions fmt pages each code files show ?thesis
    by - (intro conjI, assumption+)
qed

section \<open>Running twice\<close>

lemma isfile_map_add:
  "\<forall>q n. m q = Some n \<longrightarrow> (\<exists>c. n = File c) \<Longrightarrow> isfile d x \<Longrightarrow> isfile (d ++ m) x"
  by (auto simp: isfile_def map_add_def split: option.splits node.splits)

lemma isdir_map_add: "m out = None \<Longrightarrow> isdir d out \<Longrightarrow> isdir (d ++ m) out"
  by (simp add: isdir_def map_add_def)

lemma created_idem: "isdir d out \<Longrightarrow> created out d = d"
  by (auto simp: created_def isdir_def split: option.splits)

lemma map_add_twice: "(d ++ m) ++ m = d ++ m"
  by (rule ext) (simp add: map_add_def split: option.splits)

lemma toolchain_found_created:
  "toolchain_found e pp (created out d) = toolchain_found e pp d"
  by (simp add: toolchain_found_def isfile_created split: option.splits)

lemma source_readable_created:
  "source_readable e pdf (created out d) = source_readable e pdf d"
  by (simp add: source_readable_def isfile_created)

lemma makedirs_created:
  "makedirs e out d = Inr d' \<Longrightarrow> makedirs e out (created out d) = Inr (created out d)"
  by (rule makedirs_isdir) (rule created_isdir)

lemma preconditions_created:
  "preconditions_hold e a d \<Longrightarrow> preconditions_hold e a (created (args_output_dir a) d)"
  by (auto simp: preconditions_hold_def toolchain_found_created source_readable_created
      destination_ready_def makedirs_created split: sum.splits)

lemma preconditions_map_add:
  assumes pre: "preconditions_hold e a d"
    and dir: "isdir d (args_output_dir a)"
    and files: "\<forall>q n. m q = Some n \<longrightarrow> (\<exists>c. n = File c)"
    and out: "m (args_output_dir a) = None"
  shows "preconditions_hold e a (d ++ m)"
proof -
  have "toolchain_found e (args_poppler_path a) (d ++ m)"
    using pre isfile_map_add [OF files]
    by (auto simp: preconditions_hold_def toolchain_found_def split: option.splits)
  moreover have "source_readable e (args_pdf_file a) (d ++ m)"
    using pre isfile_map_add [OF files]
    by (auto simp: preconditions_hold_def source_readable_def)
  moreover have "destination_ready e (args_output_dir a) (d ++ m)"
  proof -
    have "isdir (d ++ m) (args_output_dir a)"
      using out dir by (rule isdir_map_add)
    then have "makedirs e (args_output_dir a) (d ++ m) = Inr (d ++ m)"
      by (rule makedirs_isdir)
    with pre show ?thesis
      by (auto simp: preconditions_hold_def destination_ready_def split: sum.splits)
  qed
  ultimately show ?thesis
    using pre by (simp add: preconditions_hold_def)
qed

text \<open>The saves of a run: the calls to \<open>page.save\<close> among the calls the run adds.\<close>

lemma saves_of_appended:
  "calls v' = calls v @ cs \<Longrightarrow> filter is_save (drop (length (calls v)) (calls v')) = filter is_save cs"
  by simp

text \<open>What a run whose checks pass does depends on the world only through the disk.\<close>

lemma main_loop_effect:
  "\<exists>st m cs.
     (\<forall>q n. m q = Some n \<longrightarrow> (\<exists>c. n = File c))
     \<and> m (args_output_dir a) = None
     \<and> (\<forall>v. preconditions_hold e a (disk v) \<longrightarrow>
            convert_from_path e (args_pdf_file a) (read_file (disk v) (args_pdf_file a))
              (args_dpi a) (args_fmt a) (args_poppler_path a) = Inr pages \<longrightarrow>
            fst (main e a v) = st
            \<and> disk (snd (main e a v)) = created (args_output_dir a) (disk v) ++ m
            \<and> filter is_save (drop (length (calls v)) (calls (snd (main e a v)))) = cs)"
proof -
  from for_pages_summary [of e "args_output_dir a" "args_fmt a" "enumerate 1 pages"]
  obtain st m lg pr cs where
    run: "\<And>v. for_pages e (args_output_dir a) (args_fmt a) (enumerate 1 pages) v =
            (st, v\<lparr>disk := disk v ++ m, logged := logged v @ lg,
                   printed := printed v @ pr, calls := calls v @ cs\<rparr>)"
    and files: "\<forall>q n. m q = Some n \<longrightarrow> (\<exists>c. n = File c)
           \<and> q \<in> out_file_of (args_output_dir a) (args_fmt a) ` fst ` set (enumerate 1 pages)"
    and saves: "\<forall>c\<in>set cs. is_save c"
    by blast
  have out: "m (args_output_dir a) = None"
  proof (cases "m (args_output_dir a)")
    case (Some n)
    with files have "args_output_dir a
        \<in> out_file_of (args_output_dir a) (args_fmt a) ` fst ` set (enumerate 1 pages)"
      by blast
    then show ?thesis
      by (auto simp: out_file_of_not_dir [symmetric])
  qed simp
  have each: "fst (main e a v) = st
      \<and> disk (snd (main e a v)) = created (args_output_dir a) (disk v) ++ m
      \<and> filter is_save (drop (length (calls v)) (calls (snd (main e a v)))) = cs"
    if pre: "preconditions_hold e a (disk v)"
      and pages: "convert_from_path e (args_pdf_file a) (read_file (disk v) (args_pdf_file a))
              (args_dpi a) (args_fmt a) (args_poppler_path a) = Inr pages"
    for v
  proof -
    have none: "filter is_save (check_calls a (disk v)) = []"
      using check_calls_no_save [of _ a "disk v"] by (auto simp: filter_empty_conv)
    have all: "filter is_save cs = cs"
      using saves by simp
    show ?thesis
      unfolding main_pages [OF pre pages] run
      by (cases st) (simp_all add: and_then_def return_def logging_info_def none all)
  qed
  from files out each show ?thesis
    by blast
qed

text \<open>The disk after a run in which a check fails: only the directory check can change it.\<close>

lemma main_failed_disk:
  assumes "\<not> preconditions_hold e a (disk w)"
  shows "disk (snd (main e a w)) =
     (if pdf2image_installed e \<and> toolchain_found e (args_poppler_path a) (disk w)
         \<and> source_readable e (args_pdf_file a) (disk w)
         \<and> (\<exists>d. makedirs e (args_output_dir a) (disk w) = Inr d)
      then created (args_output_dir a) (disk w) else disk w)"
proof -
  consider (dep) "\<not> pdf2image_installed e"
    | (tool) "pdf2image_installed e" "\<not> toolchain_found e (args_poppler_path a) (disk w)"
    | (missing) "pdf2image_installed e" "toolchain_found e (args_poppler_path a) (disk w)"
        "\<not> isfile (disk w) (args_pdf_file a)"
    | (unreadable) "pdf2image_installed e" "toolchain_found e (args_poppler_path a) (disk w)"
        "isfile (disk w) (args_pdf_file a)" "\<not> access_R e (args_pdf_file a)"
    | (mkdir) err where "pdf2image_installed e"
        "toolchain_found e (args_poppler_path a) (disk w)"
        "source_readable e (args_pdf_file a) (disk w)"
        "makedirs e (args_output_dir a) (disk w) = Inl err"
    | (unwritable) d where "pdf2image_installed e"
        "toolchain_found e (args_poppler_path a) (disk w)"
        "source_readable e (args_pdf_file a) (disk w)"
        "makedirs e (args_output_dir a) (disk w) = Inr d" "\<not> access_W e (args_output_dir a)"
    using assms
    by (cases "makedirs e (args_output_dir a) (disk w)")
       (auto simp: preconditions_hold_def source_readable_def destination_ready_def)
  then show ?thesis
  proof cases
    case dep
    then show ?thesis by (simp add: main_no_pdf2image step_defs)
  next
    case tool
    then show ?thesis by (simp add: main_no_toolchain step_defs)
  next
    case missing
    then show ?thesis by (simp add: main_pdf_missing step_defs source_readable_def)
  next
    case unreadable
    then show ?thesis by (simp add: main_pdf_unreadable step_defs source_readable_def)
  next
    case mkdir
    then show ?thesis by (simp add: main_mkdir_failed step_defs)
  next
    case unwritable
    then show ?thesis by (simp add: main_dir_unwritable step_defs)
  qed
qed

lemma main_failed_twice:
  assumes fail: "\<not> preconditions_hold e a (disk w)"
  shows "\<not> preconditions_hold e a (disk (snd (main e a w)))
    \<and> disk (snd (main e a (snd (main e a w)))) = disk (snd (main e a w))"
proof (cases "pdf2image_installed e \<and> toolchain_found e (args_poppler_path a) (disk w)
         \<and> source_readable e (args_pdf_file a) (disk w)
         \<and> (\<exists>d. makedirs e (args_output_dir a) (disk w) = Inr d)")
  case False
  with main_failed_disk [OF fail] have same: "disk (snd (main e a w)) = disk w"
    by simp
  with fail have fail1: "\<not> preconditions_hold e a (disk (snd (main e a w)))"
    by simp
  from main_failed_disk [OF fail1] False same show ?thesis
    using fail1 by simp
next
  case True
  then obtain d where ok: "pdf2image_installed e"
    "toolchain_found e (args_poppler_path a) (disk w)"
    "source_readable e (args_pdf_file a) (disk w)"
    and mk: "makedirs e (args_output_dir a) (disk w) = Inr d"
    by blast
  let ?d = "created (args_output_dir a) (disk w)"
  from main_failed_disk [OF fail] True have made: "disk (snd (main e a w)) = ?d"
    by simp
  from fail ok mk have "\<not> access_W e (args_output_dir a)"
    by (simp add: preconditions_hold_def destination_ready_def)
  then have fail1: "\<not> preconditions_hold e a (disk (snd (main e a w)))"
    by (simp add: preconditions_hold_def destination_ready_def split: sum.splits)
  have "created (args_output_dir a) ?d = ?d"
    by (rule created_idem) (rule created_isdir [OF mk])
  with main_failed_disk [OF fail1] show ?thesis
    using fail1 by (simp add: made)
qed

lemma failed_run_saves:
  assumes "\<not> preconditions_hold e a (disk v)"
  shows "fst (main e a v) = Inl (SystemExit 1)
    \<and> filter is_save (drop (length (calls v)) (calls (snd (main e a v)))) = []"
proof -
  from main_failed [OF assms] obtain cs where
    "calls (snd (main e a v)) = calls v @ cs" and "\<forall>c \<in> set cs. \<not> is_save c \<and> \<not> is_convert c"
    by blast
  then have "filter is_save (drop (length (calls v)) (calls (snd (main e a v)))) = []"
    by (simp add: filter_empty_conv)
  with main_failed [OF assms] show ?thesis
    by blast
qed

text \<open>
  Claim C8. Run the program, and run it again with the same arguments in the same
  environment on the disk the first run left, the source file holding what it held
  before the first run. Then the second run leaves the disk exactly as the first run left
  it: the same files with the same bytes and no file more. It ends as the first run ended,
  and it makes the same saves, to the same paths in the same order, so each page file is
  written over.
\<close>

theorem second_run_leaves_the_same_files:
  assumes same_source:
    "read_file (disk (snd (main e a w))) (args_pdf_file a) = read_file (disk w) (args_pdf_file a)"
  shows "disk (snd (main e a (snd (main e a w)))) = disk (snd (main e a w))
    \<and> fst (main e a (snd (main e a w))) = fst (main e a w)
    \<and> filter is_save (drop (length (calls (snd (main e a w))))
           (calls (snd (main e a (snd (main e a w))))))
        = filter is_save (drop (length (calls w)) (calls (snd (main e a w))))"
proof (cases "preconditions_hold e a (disk w)")
  case False
  from main_failed_twice [OF False]
  have fail1: "\<not> preconditions_hold e a (disk (snd (main e a w)))"
    and same: "disk (snd (main e a (snd (main e a w)))) = disk (snd (main e a w))"
    by simp_all
  from failed_run_saves [OF False] failed_run_saves [OF fail1] same show ?thesis
    by simp
next
  case pre: True
  let ?out = "args_output_dir a"
  let ?d = "created ?out (disk w)"
  from pre obtain d where mk: "makedirs e ?out (disk w) = Inr d"
    by (auto simp: preconditions_hold_def destination_ready_def split: sum.splits)
  have dir: "isdir ?d ?out"
    by (rule created_isdir [OF mk])
  have pre_d: "preconditions_hold e a ?d"
    by (rule preconditions_created [OF pre])
  show ?thesis
  proof (cases "convert_from_path e (args_pdf_file a) (read_file (disk w) (args_pdf_file a))
               (args_dpi a) (args_fmt a) (args_poppler_path a)")
    case (Inl ex)
    note run = main_raster_raises [OF pre Inl]
    have d1: "disk (snd (main e a w)) = ?d"
      by (simp add: run raise_def)
    have pre1: "preconditions_hold e a (disk (snd (main e a w)))"
      unfolding d1 by (rule pre_d)
    have rc1: "convert_from_path e (args_pdf_file a)
        (read_file (disk (snd (main e a w))) (args_pdf_file a))
        (args_dpi a) (args_fmt a) (args_poppler_path a) = Inl ex"
      unfolding same_source by (rule Inl)
    note run1 = main_raster_raises [OF pre1 rc1]
    have "disk (snd (main e a (snd (main e a w)))) = created ?out ?d"
      unfolding run1 by (simp add: raise_def d1)
    then have disk2: "disk (snd (main e a (snd (main e a w)))) = disk (snd (main e a w))"
      by (simp add: d1 created_idem [OF dir])
    have status: "fst (main e a (snd (main e a w))) = fst (main e a w)"
      unfolding run1 by (simp add: raise_def run)
    have none: "filter is_save (check_calls a (disk w)) = []"
      "filter is_save (check_calls a (disk (snd (main e a w)))) = []"
      using check_calls_no_save [of _ a "disk w"]
        check_calls_no_save [of _ a "disk (snd (main e a w))"]
      by (auto simp: filter_empty_conv)
    have "filter is_save (drop (length (calls (snd (main e a w))))
           (calls (snd (main e a (snd (main e a w)))))) = []"
      unfolding run1 by (simp add: raise_def none)
    moreover have "filter is_save (drop (length (calls w)) (calls (snd (main e a w)))) = []"
      unfolding run by (simp add: raise_def none)
    ultimately show ?thesis
      using disk2 status by simp
  next
    case (Inr pages)
    from main_loop_effect [of a e pages] obtain st m cs where
      files: "\<forall>q n. m q = Some n \<longrightarrow> (\<exists>c. n = File c)"
      and out: "m ?out = None"
      and effect: "\<And>v. preconditions_hold e a (disk v) \<Longrightarrow>
            convert_from_path e (args_pdf_file a) (read_file (disk v) (args_pdf_file a))
              (args_dpi a) (args_fmt a) (args_poppler_path a) = Inr pages \<Longrightarrow>
            fst (main e a v) = st
            \<and> disk (snd (main e a v)) = created ?out (disk v) ++ m
            \<and> filter is_save (drop (length (calls v)) (calls (snd (main e a v)))) = cs"
      by blast
    note first = effect [OF pre Inr]
    then have d1: "disk (snd (main e a w)) = ?d ++ m"
      by simp
    have pre1: "preconditions_hold e a (disk (snd (main e a w)))"
      unfolding d1 by (rule preconditions_map_add [OF pre_d dir files out])
    have rc1: "convert_from_path e (args_pdf_file a)
        (read_file (disk (snd (main e a w))) (args_pdf_file a))
        (args_dpi a) (args_fmt a) (args_poppler_path a) = Inr pages"
      unfolding same_source by (rule Inr)
    note second = effect [OF pre1 rc1]
    have "isdir (?d ++ m) ?out"
      using out dir by (rule isdir_map_add)
    then have "created ?out (?d ++ m) = ?d ++ m"
      by (rule created_idem)
    with second have "disk (snd (main e a (snd (main e a w)))) = (?d ++ m) ++ m"
      by (simp add: d1)
    then have "disk (snd (main e a (snd (main e a w)))) = disk (snd (main e a w))"
      by (simp only: map_add_twice d1)
    with first second show ?thesis
      by simp
  qed
qed

theorem second_run_leaves_the_same_files_witness:
  "read_file (disk (snd (main sample_env sample_args sample_world))) (args_pdf_file sample_args)
     = read_file (disk sample_world) (args_pdf_file sample_args)
   \<and> disk (snd (main sample_env sample_args (snd (main sample_env sample_args sample_world))))
     = disk (snd (main sample_env sample_args sample_world))
   \<and> fst (main sample_env sample_args (snd (main sample_env sample_args sample_world))) = Inr ()
   \<and> filter is_save (drop (length (calls (snd (main sample_env sample_args sample_world))))
         (calls (snd (main sample_env sample_args
                  (snd (main sample_env sample_args sample_world))))))
     = [Save 10 ''out/page_1.png'' ''PNG'', Save 20 ''out/page_2.png'' ''PNG'',
        Save 30 ''out/page_3.png'' ''PNG'']"
proof -
  have source: "read_file (disk (snd (main sample_env sample_args sample_world)))
      (args_pdf_file sample_args) = read_file (disk sample_world) (args_pdf_file sample_args)"
    by code_simp
  have status: "fst (main sample_env sample_args sample_world) = Inr ()"
    by code_simp
  have saves: "filter is_save (drop (length (calls sample_world))
      (calls (snd (main sample_env sample_args sample_world))))
     = [Save 10 ''out/page_1.png'' ''PNG'', Save 20 ''out/page_2.png'' ''PNG'',
        Save 30 ''out/page_3.png'' ''PNG'']"
    unfolding sample_trace by (simp add: sample_world_def)
  from second_run_leaves_the_same_files [OF source] source status saves
  show ?thesis
    by simp
qed

end
